theory Spec2Isabelle
  imports Complex_Main "HOL-Library.Word"
begin

unbundle bit_operations_syntax

section \<open>GridForm: pattern evaluation and compositing\<close>

text \<open>
  A shallow embedding of the core of \<^verbatim>\<open>src/js/scripts.js\<close>: the pattern
  scalar field (\<^verbatim>\<open>getPatternValue\<close>), the two stateful pattern sources
  (\<^verbatim>\<open>updateCellular\<close>, \<^verbatim>\<open>getVoronoiValue\<close>), the blend algebra
  (\<^verbatim>\<open>blendValues\<close>, \<^verbatim>\<open>blendColors\<close>, \<^verbatim>\<open>hexToRgb\<close>), the glyph
  quantisation of \<^verbatim>\<open>draw\<close> and the click-effect decay of
  \<^verbatim>\<open>updateInteractiveEffects\<close> and \<^verbatim>\<open>mousePressed\<close>. The noise variants are
  those of the extended variant of the script in \<^verbatim>\<open>src/unnamed/part_000\<close>.

  JavaScript numbers are modelled as ideal numbers: a finite double is a \<^typ>\<open>real\<close>,
  an integer-valued one an \<^typ>\<open>int\<close> where the source has taken \<^verbatim>\<open>floor\<close>.
  Rounding, \<^verbatim>\<open>NaN\<close> and overflow to \<^verbatim>\<open>Infinity\<close> are outside the model; the one
  place where the source itself writes \<^verbatim>\<open>Infinity\<close> (the nearest-distance search of
  \<^verbatim>\<open>getVoronoiValue\<close>) is modelled with an explicit value.
\<close>

subsection \<open>Host library arithmetic (p5.js)\<close>

text \<open>
  Modelled from the spec: the helpers \<^verbatim>\<open>lerp\<close>, \<^verbatim>\<open>constrain\<close>, \<^verbatim>\<open>map\<close> and
  \<^verbatim>\<open>dist\<close> belong to the p5.js host library and are not among the sources. The
  specification uses them as linear interpolation (\<open>lerp(0.5, v2, amount)\<close>), clamping
  to a closed interval, linear range mapping and Euclidean distance; the definitions
  below are the library's documented formulas.
\<close>

definition lerp :: "real \<Rightarrow> real \<Rightarrow> real \<Rightarrow> real" where
  "lerp start stop amt = amt * (stop - start) + start"

definition constrain :: "'a::linorder \<Rightarrow> 'a \<Rightarrow> 'a \<Rightarrow> 'a" where
  "constrain n low high = max (min n high) low"

definition map_range :: "real \<Rightarrow> real \<Rightarrow> real \<Rightarrow> real \<Rightarrow> real \<Rightarrow> real" where
  "map_range n start1 stop1 start2 stop2 =
     (n - start1) / (stop1 - start1) * (stop2 - start2) + start2"

definition dist_xy :: "real \<Rightarrow> real \<Rightarrow> real \<Rightarrow> real \<Rightarrow> real" where
  "dist_xy x1 y1 x2 y2 = sqrt ((x2 - x1) * (x2 - x1) + (y2 - y1) * (y2 - y1))"

subsection \<open>Scalar blend\<close>

text \<open>
  \<^verbatim>\<open>blendValues(value1, value2, mode, amount)\<close>: \<^verbatim>\<open>value2\<close> is first pulled
  towards \<open>0.5\<close>, then the \<^verbatim>\<open>switch\<close> on the mode string combines the two values;
  an unknown mode returns \<^verbatim>\<open>value1\<close>.
\<close>

definition blendValues :: "real \<Rightarrow> real \<Rightarrow> string \<Rightarrow> real \<Rightarrow> real" where
  "blendValues value1 value2 mode amount =
     (let value2 = lerp 0.5 value2 amount in
      if mode = ''add'' then constrain (value1 + value2 - 0.5) 0 1
      else if mode = ''multiply'' then value1 * value2
      else if mode = ''overlay'' then
        (if value1 < 0.5 then 2 * value1 * value2
         else 1 - 2 * (1 - value1) * (1 - value2))
      else if mode = ''difference'' then \<bar>value1 - value2\<bar>
      else if mode = ''screen'' then 1 - (1 - value1) * (1 - value2)
      else value1)"

subsection \<open>Colours\<close>

text \<open>
  The object \<^verbatim>\<open>{r, g, b}\<close> returned by \<^verbatim>\<open>hexToRgb\<close>; the fields are written out
  as \<open>red\<close>, \<open>green\<close>, \<open>blue\<close>.
\<close>

record rgb =
  red :: int
  green :: int
  blue :: int

definition white :: rgb where
  "white = \<lparr>red = 255, green = 255, blue = 255\<rparr>"

text \<open>The character class \<^verbatim>\<open>[a-f\d]\<close> under the flag \<^verbatim>\<open>i\<close>.\<close>

definition isHexDigit :: "char \<Rightarrow> bool" where
  "isHexDigit c = (c \<in> set ''0123456789abcdefABCDEF'')"

text \<open>\<^verbatim>\<open>parseInt(s, 16)\<close> on a string of two hexadecimal digits.\<close>

definition hexDigitValue :: "char \<Rightarrow> int" where
  "hexDigitValue c =
     (let n = (of_char c :: nat) in
      if 48 \<le> n \<and> n \<le> 57 then int n - 48
      else if 97 \<le> n \<and> n \<le> 102 then int n - 87
      else if 65 \<le> n \<and> n \<le> 70 then int n - 55
      else 0)"

fun parseInt16 :: "string \<Rightarrow> int" where
  "parseInt16 [c, d] = 16 * hexDigitValue c + hexDigitValue d"
| "parseInt16 _ = 0"

text \<open>
  The three capture groups of \<^verbatim>\<open>([a-f\d]{2})([a-f\d]{2})([a-f\d]{2})$\<close>: exactly six
  hexadecimal digits up to the end of the input.
\<close>

fun hexGroups :: "string \<Rightarrow> (string \<times> string \<times> string) option" where
  "hexGroups [c1, c2, c3, c4, c5, c6] =
     (if list_all isHexDigit [c1, c2, c3, c4, c5, c6]
      then Some ([c1, c2], [c3, c4], [c5, c6]) else None)"
| "hexGroups _ = None"

text \<open>
  \<^verbatim>\<open>/^#?([a-f\d]{2})([a-f\d]{2})([a-f\d]{2})$/i.exec(hex)\<close>. A leading \<^verbatim>\<open>#\<close> is
  consumed by \<^verbatim>\<open>#?\<close>; backtracking to the empty match cannot succeed, since
  \<^verbatim>\<open>#\<close> is no hexadecimal digit.
\<close>

definition hexRegexExec :: "string \<Rightarrow> (string \<times> string \<times> string) option" where
  "hexRegexExec hex =
     (case hex of
        c # rest \<Rightarrow> if c = CHR ''#'' then hexGroups rest else hexGroups hex
      | [] \<Rightarrow> hexGroups hex)"

definition hexToRgb :: "string \<Rightarrow> rgb" where
  "hexToRgb hex =
     (case hexRegexExec hex of
        Some (g1, g2, g3) \<Rightarrow>
          \<lparr>red = parseInt16 g1, green = parseInt16 g2, blue = parseInt16 g3\<rparr>
      | None \<Rightarrow> \<lparr>red = 255, green = 255, blue = 255\<rparr>)"

text \<open>
  The template string \<^verbatim>\<open>`rgb(${...}, ${...}, ${...})`\<close>: an integer-valued number is
  printed in decimal, with a minus sign when negative.
\<close>

fun natString :: "nat \<Rightarrow> string" where
  "natString n =
     (if n < 10 then [char_of (48 + n)]
      else natString (n div 10) @ [char_of (48 + n mod 10)])"

definition intString :: "int \<Rightarrow> string" where
  "intString i = (if i < 0 then CHR ''-'' # natString (nat (- i)) else natString (nat i))"

definition rgbString :: "int \<Rightarrow> int \<Rightarrow> int \<Rightarrow> string" where
  "rgbString x y z =
     ''rgb('' @ intString x @ '', '' @ intString y @ '', '' @ intString z @ '')''"

text \<open>
  The \<^verbatim>\<open>switch (mode)\<close> of \<^verbatim>\<open>blendColors\<close>. The source writes the same expression
  three times, for \<^verbatim>\<open>r\<close>, \<^verbatim>\<open>g\<close> and \<^verbatim>\<open>b\<close>; \<open>blendChannel\<close> is that expression for
  one channel, \<open>c1\<close> and \<open>c2\<close> being the channel of the first and of the second colour.
\<close>

definition blendChannel :: "string \<Rightarrow> real \<Rightarrow> real \<Rightarrow> real \<Rightarrow> real" where
  "blendChannel mode c1 c2 localBlend =
     (if mode = ''add'' then constrain (c1 + (c2 * localBlend)) 0 255
      else if mode = ''multiply'' then lerp c1 ((c1 * c2) / 255) localBlend
      else if mode = ''overlay'' then
        lerp c1 (if c1 < 128 then (2 * c1 * c2) / 255
                 else 255 - (2 * (255 - c1) * (255 - c2)) / 255) localBlend
      else if mode = ''difference'' then lerp c1 \<bar>c1 - c2\<bar> localBlend
      else if mode = ''screen'' then
        lerp c1 (255 - (((255 - c1) * (255 - c2)) / 255)) localBlend
      else lerp c1 c2 localBlend)"

definition blendColors ::
  "string \<Rightarrow> string \<Rightarrow> string \<Rightarrow> real \<Rightarrow> real \<Rightarrow> real \<Rightarrow> string" where
  "blendColors color1Hex color2Hex mode value1 value2 amount =
     (let color1 = hexToRgb color1Hex;
          color2 = hexToRgb color2Hex;
          localBlend = value1 * value2 * amount;
          r = blendChannel mode (real_of_int (red color1)) (real_of_int (red color2)) localBlend;
          g = blendChannel mode (real_of_int (green color1)) (real_of_int (green color2)) localBlend;
          b = blendChannel mode (real_of_int (blue color1)) (real_of_int (blue color2)) localBlend
      in rgbString \<lfloor>r\<rfloor> \<lfloor>g\<rfloor> \<lfloor>b\<rfloor>)"

text \<open>
  What it means for a string to parse as a six-digit hexadecimal colour, stated
  independently of the matcher: six hexadecimal digits, optionally after one \<^verbatim>\<open>#\<close>.
\<close>

definition isSixDigitHex :: "string \<Rightarrow> bool" where
  "isSixDigitHex s =
     (\<exists>ds. length ds = 6 \<and> list_all isHexDigit ds \<and> (s = ds \<or> s = CHR ''#'' # ds))"

subsection \<open>Program state\<close>

text \<open>
  A click effect as pushed by \<^verbatim>\<open>mousePressed\<close>; the fields \<^verbatim>\<open>x\<close> and \<^verbatim>\<open>y\<close> are
  written \<open>click_x\<close> and \<open>click_y\<close>. A Voronoi point \<^verbatim>\<open>{x, y, vx, vy}\<close> has its position
  written \<open>px\<close>, \<open>py\<close>.
\<close>

record clickEffect =
  click_x :: real
  click_y :: real
  life :: real
  maxLife :: real
  strength :: real
  radius :: real

record point =
  px :: real
  py :: real
  vx :: real
  vy :: real

text \<open>
  The top-level variables of the script that the modelled functions read or write,
  together with the p5.js canvas and pointer variables and the fields of
  \<^verbatim>\<open>settings.interactive\<close> read by \<^verbatim>\<open>mousePressed\<close>.
\<close>

record globals =
  gridCols :: int
  gridRows :: int
  baseCharWidth :: real
  baseCharHeight :: real
  gridScale :: real
  canvasWidth :: real
  canvasHeight :: real
  mouseX :: real
  mouseY :: real
  interactive_enabled :: bool
  interactive_clickEnabled :: bool
  interactive_strength :: real
  interactive_radius :: real
  clickEffects :: "clickEffect list"
  cellularGrid :: "bool list list"
  voronoiPoints :: "point list"

subsection \<open>Click effects\<close>

text \<open>
  \<^verbatim>\<open>updateInteractiveEffects\<close>: the callback of \<^verbatim>\<open>filter\<close> first subtracts \<open>0.016\<close>
  from the effect's \<^verbatim>\<open>life\<close> and then keeps the effect when the new life is positive.
\<close>

definition updateInteractiveEffects :: "globals \<Rightarrow> globals" where
  "updateInteractiveEffects s =
     s\<lparr>clickEffects :=
         filter (\<lambda>effect. life effect > 0)
           (map (\<lambda>effect. effect\<lparr>life := life effect - 0.016\<rparr>) (clickEffects s))\<rparr>"

text \<open>
  \<^verbatim>\<open>mousePressed\<close>. A zero \<^verbatim>\<open>gridPixelWidth\<close> or \<^verbatim>\<open>gridPixelHeight\<close> makes the
  normalised coordinate infinite or \<^verbatim>\<open>NaN\<close> in the source, and the bounds test then
  fails; the model writes that case out.
\<close>

definition mousePressed :: "globals \<Rightarrow> globals" where
  "mousePressed s =
     (if interactive_enabled s \<and> interactive_clickEnabled s then
        (let gridPixelWidth = real_of_int (gridCols s) * baseCharWidth s * gridScale s;
             gridPixelHeight = real_of_int (gridRows s) * baseCharHeight s * gridScale s;
             startX = (canvasWidth s - gridPixelWidth) / 2;
             startY = (canvasHeight s - gridPixelHeight) / 2;
             relativeX = mouseX s - startX;
             relativeY = mouseY s - startY
         in if gridPixelWidth = 0 \<or> gridPixelHeight = 0 then s
            else
              (let normalizedX = relativeX / gridPixelWidth;
                   normalizedY = relativeY / gridPixelHeight
               in if normalizedX \<ge> 0 \<and> normalizedX \<le> 1 \<and> normalizedY \<ge> 0 \<and> normalizedY \<le> 1
                  then s\<lparr>clickEffects := clickEffects s @
                         [\<lparr>click_x = normalizedX, click_y = normalizedY,
                           life = 3.0, maxLife = 3.0,
                           strength = interactive_strength s,
                           radius = interactive_radius s\<rparr>]\<rparr>
                  else s))
      else s)"

subsection \<open>Glyph selection\<close>

text \<open>
  The three lines of \<^verbatim>\<open>draw\<close> that turn the final value into a character:
  \<^verbatim>\<open>Math.floor(map(finalValue, 0, 1, 0, selectedRamp.length - 1))\<close>, the \<^verbatim>\<open>constrain\<close>
  of the index, and the read \<^verbatim>\<open>selectedRamp[charIndex]\<close>, which is \<^verbatim>\<open>undefined\<close>
  (here \<open>None\<close>) outside the ramp. A ramp is a list of code units.
\<close>

definition charIndex :: "real \<Rightarrow> 'c list \<Rightarrow> int" where
  "charIndex finalValue selectedRamp =
     (let charIndex = \<lfloor>map_range finalValue 0 1 0 (real_of_int (int (length selectedRamp) - 1))\<rfloor>
      in constrain charIndex 0 (int (length selectedRamp) - 1))"

definition selectChar :: "real \<Rightarrow> 'c list \<Rightarrow> 'c option" where
  "selectChar finalValue selectedRamp =
     (let i = charIndex finalValue selectedRamp
      in if 0 \<le> i \<and> i < int (length selectedRamp) then Some (selectedRamp ! nat i) else None)"

subsection \<open>Example states\<close>

text \<open>
  A state in which the pointer rests on the centre of the default 80 by 50 grid and
  interaction is enabled, and the click effect that a press creates there.
\<close>

definition clickState :: globals where
  "clickState =
     \<lparr>gridCols = 80, gridRows = 50, baseCharWidth = 8, baseCharHeight = 14, gridScale = 1,
      canvasWidth = 640, canvasHeight = 700, mouseX = 320, mouseY = 350,
      interactive_enabled = True, interactive_clickEnabled = True,
      interactive_strength = 1, interactive_radius = 0.2,
      clickEffects = [], cellularGrid = [], voronoiPoints = []\<rparr>"

definition clickAtCentre :: clickEffect where
  "clickAtCentre =
     \<lparr>click_x = 0.5, click_y = 0.5, life = 3, maxLife = 3, strength = 1, radius = 0.2\<rparr>"


subsection \<open>Numbers and errors\<close>

text \<open>
  The result of a pattern evaluation. Every kind but \<^verbatim>\<open>voronoi\<close> yields a finite
  number; \<^verbatim>\<open>getVoronoiValue\<close> starts its search from \<^verbatim>\<open>Infinity\<close> and returns
  \<^verbatim>\<open>Infinity\<close> or \<^verbatim>\<open>NaN\<close> when fewer than two points exist.
\<close>

datatype number = Finite real | Infinity | NaN

text \<open>Reading a property of \<^verbatim>\<open>undefined\<close> throws a \<^verbatim>\<open>TypeError\<close>.\<close>

datatype error = TypeError

text \<open>
  The remainder operator \<^verbatim>\<open>%\<close> on integers: the result has the sign of the
  dividend.
\<close>

definition jsRem :: "int \<Rightarrow> int \<Rightarrow> int" where
  "jsRem a b = sgn a * (\<bar>a\<bar> mod \<bar>b\<bar>)"

text \<open>
  The operator \<^verbatim>\<open>^\<close>: both operands are converted to 32-bit integers (modulo
  \<open>2^32\<close>), and the result is read as a signed 32-bit integer. The operands here are
  integer products; the model is exact as long as they are below \<open>2^53\<close> in magnitude.
\<close>

definition jsXor :: "int \<Rightarrow> int \<Rightarrow> int" where
  "jsXor a b = sint ((word_of_int a :: 32 word) XOR (word_of_int b :: 32 word))"

text \<open>\<^verbatim>\<open>atan2(y, x)\<close>, the angle of the point \<open>(x, y)\<close> in \<open>(-\<pi>, \<pi>]\<close>.\<close>

definition atan2 :: "real \<Rightarrow> real \<Rightarrow> real" where
  "atan2 y x =
     (if x > 0 then arctan (y / x)
      else if x < 0 then (if y \<ge> 0 then arctan (y / x) + pi else arctan (y / x) - pi)
      else if y > 0 then pi / 2
      else if y < 0 then - (pi / 2)
      else 0)"

definition TWO_PI :: real where
  "TWO_PI = 2 * pi"

subsection \<open>Escape-time fractals\<close>

text \<open>
  \<^verbatim>\<open>mandelbrotIteration(cx, cy, maxIter)\<close> and \<^verbatim>\<open>juliaIteration(zx, zy, c, maxIter)\<close>:
  the \<^verbatim>\<open>for\<close> loop over \<open>i\<close> with the loop variables \<open>zx\<close>, \<open>zy\<close>. Both functions run
  the same loop body; they differ in the starting point and in the constant added.
\<close>

function escapeLoop :: "real \<Rightarrow> real \<Rightarrow> nat \<Rightarrow> nat \<Rightarrow> real \<Rightarrow> real \<Rightarrow> nat" where
  "escapeLoop cx cy maxIter i zx zy =
     (if i < maxIter then
        (if zx * zx + zy * zy > 4 then i
         else escapeLoop cx cy maxIter (i + 1) (zx * zx - zy * zy + cx) (2 * zx * zy + cy))
      else maxIter)"
  by pat_completeness auto
termination
  by (relation "measure (\<lambda>(cx, cy, maxIter, i, zx, zy). maxIter - i)") auto

definition mandelbrotIteration :: "real \<Rightarrow> real \<Rightarrow> nat \<Rightarrow> nat" where
  "mandelbrotIteration cx cy maxIter = escapeLoop cx cy maxIter 0 0 0"

definition juliaIteration :: "real \<Rightarrow> real \<Rightarrow> real \<times> real \<Rightarrow> nat \<Rightarrow> nat" where
  "juliaIteration zx zy c maxIter = escapeLoop (fst c) (snd c) maxIter 0 zx zy"

subsection \<open>Cellular automaton\<close>

text \<open>
  A cell of the grid read as a condition. In \<^verbatim>\<open>getPatternValue\<close> the read is guarded,
  \<^verbatim>\<open>cellularGrid[cellY] && cellularGrid[cellY][cellX]\<close>, and a missing row or a missing
  element is falsy. In \<^verbatim>\<open>updateCellular\<close> the read \<^verbatim>\<open>cellularGrid[ny][nx]\<close> is not
  guarded: a missing element is \<^verbatim>\<open>undefined\<close> and counts as false, while a missing row
  makes the read throw; \<open>updateCellular\<close> below handles that case before reading.
\<close>

definition cellAt :: "bool list list \<Rightarrow> int \<Rightarrow> int \<Rightarrow> bool" where
  "cellAt grid ny nx =
     (0 \<le> ny \<and> ny < int (length grid) \<and> 0 \<le> nx \<and> nx < int (length (grid ! nat ny)) \<and>
      grid ! nat ny ! nat nx)"

text \<open>The two nested loops over \<open>dy\<close> and \<open>dx\<close> that count the live neighbours.\<close>

definition countNeighbors :: "bool list list \<Rightarrow> int \<Rightarrow> int \<Rightarrow> nat" where
  "countNeighbors grid x y =
     fold (\<lambda>dy neighbors.
       fold (\<lambda>dx neighbors.
         if dx = 0 \<and> dy = 0 then neighbors
         else
           (let nx = x + dx; ny = y + dy
            in if nx \<ge> 0 \<and> nx < 40 \<and> ny \<ge> 0 \<and> ny < 30
               then (if cellAt grid ny nx then neighbors + 1 else neighbors)
               else neighbors))
         [-1, 0, 1] neighbors)
       [-1, 0, 1] 0"

text \<open>
  \<^verbatim>\<open>updateCellular\<close>. Every row \<open>0..29\<close> of the old grid is read while the new grid
  is built, so the function throws exactly when the old grid has fewer than 30 rows; the
  global is assigned only after the loops, and a throw leaves it as it was.
\<close>

definition updateCellular :: "globals \<Rightarrow> error + globals" where
  "updateCellular s =
     (let grid = cellularGrid s
      in if length grid < 30 then Inl TypeError
         else Inr (s\<lparr>cellularGrid :=
           map (\<lambda>y. map (\<lambda>x.
                  (let neighbors = countNeighbors grid x y
                   in if cellAt grid y x then neighbors = 2 \<or> neighbors = 3
                      else neighbors = 3))
                [0..39])
             [0..29]\<rparr>))"

subsection \<open>Voronoi swarm\<close>

text \<open>The body of the first loop of \<^verbatim>\<open>getVoronoiValue\<close>, for one point.\<close>

definition advancePoint :: "point \<Rightarrow> point" where
  "advancePoint p =
     (let x = px p + vx p;
          y = py p + vy p;
          vx' = (if x \<le> 0 \<or> x \<ge> 1 then vx p * (-1) else vx p);
          vy' = (if y \<le> 0 \<or> y \<ge> 1 then vy p * (-1) else vy p)
      in \<lparr>px = constrain x 0 1, py = constrain y 0 1, vx = vx', vy = vy'\<rparr>)"

text \<open>
  The body of the second loop. \<open>minDist\<close> and \<open>secondMinDist\<close> start at
  \<^verbatim>\<open>Infinity\<close>, written \<open>None\<close>; every distance is finite and below \<^verbatim>\<open>Infinity\<close>.
\<close>

definition belowDist :: "real \<Rightarrow> real option \<Rightarrow> bool" where
  "belowDist d m = (case m of None \<Rightarrow> True | Some v \<Rightarrow> d < v)"

definition nearestStep ::
  "real \<Rightarrow> real \<Rightarrow> point \<Rightarrow> real option \<times> real option \<Rightarrow> real option \<times> real option" where
  "nearestStep x y p acc =
     (let minDist = fst acc; secondMinDist = snd acc; d = dist_xy x y (px p) (py p)
      in if belowDist d minDist then (Some d, minDist)
         else if belowDist d secondMinDist then (minDist, Some d)
         else (minDist, secondMinDist))"

text \<open>
  \<^verbatim>\<open>getVoronoiValue(x, y, timeOffset)\<close>: all points are advanced, then the two
  smallest distances are found. With no point the result is
  \<^verbatim>\<open>Infinity - Infinity\<close>, which is \<^verbatim>\<open>NaN\<close>; with one point it is \<^verbatim>\<open>Infinity\<close>.
\<close>

definition getVoronoiValue :: "real \<Rightarrow> real \<Rightarrow> real \<Rightarrow> globals \<Rightarrow> number \<times> globals" where
  "getVoronoiValue x y timeOffset s =
     (let points = map advancePoint (voronoiPoints s);
          found = fold (nearestStep x y) points (None, None)
      in ((case found of
             (Some minDist, Some secondMinDist) \<Rightarrow>
               Finite (((secondMinDist - minDist) * 10 + sin (timeOffset * 100)) * 2 - 1)
           | (Some minDist, None) \<Rightarrow> Infinity
           | (None, _) \<Rightarrow> NaN),
          s\<lparr>voronoiPoints := points\<rparr>))"

subsection \<open>Pattern evaluation\<close>

text \<open>
  The fields of a pattern object read by \<^verbatim>\<open>getPatternValue\<close>; \<^verbatim>\<open>pattern.type\<close> is
  written \<open>ptype\<close>.
\<close>

record pattern =
  ptype :: string
  speed :: real
  scale :: real

text \<open>
  \<^verbatim>\<open>getPatternValue(x, y, pattern, time)\<close>. The p5.js function \<^verbatim>\<open>noise\<close> is a
  parameter. The \<^verbatim>\<open>switch\<close> assigns \<open>value\<close>; a type that matches no case leaves it
  \<open>0\<close>. The result is the normalised value together with the state after the call; the
  only throw is that of \<^verbatim>\<open>updateCellular\<close>.
\<close>

definition normalize :: "number \<Rightarrow> number" where
  "normalize v = (case v of Finite r \<Rightarrow> Finite ((r + 1) / 2) | Infinity \<Rightarrow> Infinity | NaN \<Rightarrow> NaN)"

definition getPatternValue ::
  "(real \<Rightarrow> real \<Rightarrow> real \<Rightarrow> real) \<Rightarrow> globals \<Rightarrow> int \<Rightarrow> int \<Rightarrow> pattern \<Rightarrow> real
     \<Rightarrow> error + (number \<times> globals)" where
  "getPatternValue noise s x y pattern time =
     (let normalizedX = real_of_int x / real_of_int (gridCols s);
          normalizedY = real_of_int y / real_of_int (gridRows s)
      in
      if ptype pattern = ''waves'' then
        Inr (normalize (Finite
          ((sin (normalizedX * TWO_PI * 5 + time * speed pattern * 100) +
            sin (normalizedY * TWO_PI * 3 + time * speed pattern * 80)) / 2)), s)
      else if ptype pattern = ''ripples'' then
        (let centerX = 0.5; centerY = 0.5;
             distance = dist_xy normalizedX normalizedY centerX centerY
         in Inr (normalize (Finite
              (sin (distance * TWO_PI * 10 - time * speed pattern * 200))), s))
      else if ptype pattern = ''noise'' then
        Inr (normalize (Finite
          (noise (normalizedX * scale pattern * 100) (normalizedY * scale pattern * 100)
             (time * speed pattern * 10) * 2 - 1)), s)
      else if ptype pattern = ''spiral'' then
        (let angle = atan2 (normalizedY - 0.5) (normalizedX - 0.5);
             radius = dist_xy normalizedX normalizedY 0.5 0.5
         in Inr (normalize (Finite
              (sin (angle * 3 + radius * 20 + time * speed pattern * 100))), s))
      else if ptype pattern = ''checkerboard'' then
        (let checkX = \<lfloor>normalizedX * scale pattern * 100\<rfloor>;
             checkY = \<lfloor>normalizedY * scale pattern * 100\<rfloor>
         in Inr (normalize (Finite (real_of_int
              (jsRem (checkX + checkY + \<lfloor>time * speed pattern * 100\<rfloor>) 2 * 2 - 1))), s))
      else if ptype pattern = ''stripes'' then
        Inr (normalize (Finite
          (sin ((normalizedX + normalizedY) * scale pattern * 200 + time * speed pattern * 100))), s)
      else if ptype pattern = ''plasma'' then
        Inr (normalize (Finite
          ((sin (normalizedX * 16 + time * speed pattern * 80) +
            sin (normalizedY * 8 + time * speed pattern * 60) +
            sin ((normalizedX + normalizedY) * 16 + time * speed pattern * 40) +
            sin (sqrt (normalizedX * normalizedX + normalizedY * normalizedY) * 8 +
                 time * speed pattern * 120)) / 4)), s)
      else if ptype pattern = ''mandelbrot'' then
        (let zx = (normalizedX - 0.5) * 4;
             zy = (normalizedY - 0.5) * 4;
             cx = zx + sin (time * speed pattern * 50) * 0.3;
             cy = zy + cos (time * speed pattern * 30) * 0.3
         in Inr (normalize (Finite (real (mandelbrotIteration cx cy 20) / 20)), s))
      else if ptype pattern = ''julia'' then
        (let jx = (normalizedX - 0.5) * 4;
             jy = (normalizedY - 0.5) * 4;
             juliaC = (sin (time * speed pattern * 100) * 0.8, cos (time * speed pattern * 70) * 0.8)
         in Inr (normalize (Finite (real (juliaIteration jx jy juliaC 20) / 20)), s))
      else if ptype pattern = ''cellular'' then
        (case (if jsRem \<lfloor>time * speed pattern * 100\<rfloor> 30 = 0 then updateCellular s else Inr s) of
           Inl e \<Rightarrow> Inl e
         | Inr s' \<Rightarrow>
             (let cellX = \<lfloor>normalizedX * 40\<rfloor>;
                  cellY = \<lfloor>normalizedY * 30\<rfloor>
              in Inr (normalize (Finite (if cellAt (cellularGrid s') cellY cellX then 1 else -1)), s')))
      else if ptype pattern = ''voronoi'' then
        (let r = getVoronoiValue normalizedX normalizedY (time * speed pattern) s
         in Inr (normalize (fst r), snd r))
      else if ptype pattern = ''tunnel'' then
        (let tunnelAngle = atan2 (normalizedY - 0.5) (normalizedX - 0.5);
             tunnelRadius = dist_xy normalizedX normalizedY 0.5 0.5
         in Inr (normalize (Finite
              (sin (tunnelAngle * 8 + time * speed pattern * 100) *
               sin (1 / (tunnelRadius + 0.1) + time * speed pattern * 50))), s))
      else if ptype pattern = ''mosaic'' then
        (let mosaicX = \<lfloor>normalizedX * scale pattern * 200\<rfloor>;
             mosaicY = \<lfloor>normalizedY * scale pattern * 200\<rfloor>;
             mosaicHash = jsRem (jsXor (mosaicX * 73856093) (mosaicY * 19349663)) 1000000
         in Inr (normalize (Finite
              ((real_of_int mosaicHash / 500000 - 1) + sin (time * speed pattern * 100) * 0.3)), s))
      else Inr (normalize (Finite 0), s))"

subsection \<open>Repeated evaluation\<close>

text \<open>
  Two calls of \<^verbatim>\<open>getPatternValue\<close> with the same arguments, the second one running
  in the state the first one left; the result is both values and the final state.
\<close>

definition evaluateTwice ::
  "(real \<Rightarrow> real \<Rightarrow> real \<Rightarrow> real) \<Rightarrow> globals \<Rightarrow> int \<Rightarrow> int \<Rightarrow> pattern \<Rightarrow> real
     \<Rightarrow> error + (number \<times> number \<times> globals)" where
  "evaluateTwice noise s x y pattern time =
     (case getPatternValue noise s x y pattern time of
        Inl e \<Rightarrow> Inl e
      | Inr (v1, s1) \<Rightarrow>
          (case getPatternValue noise s1 x y pattern time of
             Inl e \<Rightarrow> Inl e
           | Inr (v2, s2) \<Rightarrow> Inr (v1, v2, s2)))"

text \<open>The kinds that the specification calls stateless.\<close>

definition statelessKinds :: "string list" where
  "statelessKinds =
     [''waves'', ''ripples'', ''noise'', ''spiral'', ''checkerboard'', ''stripes'', ''plasma'',
      ''mandelbrot'', ''julia'', ''tunnel'', ''mosaic'']"

text \<open>
  A sequence of calls of \<^verbatim>\<open>getVoronoiValue\<close>, each with its own arguments
  \<open>(x, y, timeOffset)\<close>; the result is the state after the last call.
\<close>

definition afterVoronoiCalls :: "(real \<times> real \<times> real) list \<Rightarrow> globals \<Rightarrow> globals" where
  "afterVoronoiCalls calls s =
     fold (\<lambda>(x, y, timeOffset) s. snd (getVoronoiValue x y timeOffset s)) calls s"

definition inUnitSquare :: "point \<Rightarrow> bool" where
  "inUnitSquare p = (0 \<le> px p \<and> px p \<le> 1 \<and> 0 \<le> py p \<and> py p \<le> 1)"

subsection \<open>The Game of Life rule, as the specification states it\<close>

text \<open>
  A cell of the 40 by 30 grid is live when it lies inside the grid and holds true; a
  position outside the grid counts as dead. The live neighbours of a cell are counted
  over its eight neighbouring positions.
\<close>

definition liveAt :: "bool list list \<Rightarrow> int \<Rightarrow> int \<Rightarrow> bool" where
  "liveAt grid x y = (0 \<le> x \<and> x < 40 \<and> 0 \<le> y \<and> y < 30 \<and> grid ! nat y ! nat x)"

definition liveNeighbours :: "bool list list \<Rightarrow> int \<Rightarrow> int \<Rightarrow> nat" where
  "liveNeighbours grid x y =
     length (filter (\<lambda>(dx, dy). liveAt grid (x + dx) (y + dy))
       [(-1, -1), (0, -1), (1, -1), (-1, 0), (1, 0), (-1, 1), (0, 1), (1, 1)])"

definition wellFormedGrid :: "bool list list \<Rightarrow> bool" where
  "wellFormedGrid grid = (length grid = 30 \<and> list_all (\<lambda>row. length row = 40) grid)"

text \<open>
  A swarm of eight points, some of them next to or on the border of the unit square,
  in an otherwise idle state.
\<close>

definition swarmState :: globals where
  "swarmState = clickState\<lparr>voronoiPoints :=
     [\<lparr>px = 0.005, py = 0.5, vx = -0.01, vy = 0.004\<rparr>,
      \<lparr>px = 0.995, py = 0.2, vx = 0.01, vy = -0.003\<rparr>,
      \<lparr>px = 0.3, py = 0.002, vx = 0.002, vy = -0.005\<rparr>,
      \<lparr>px = 0.7, py = 0.999, vx = -0.006, vy = 0.008\<rparr>,
      \<lparr>px = 0.5, py = 0.5, vx = 0.001, vy = 0.001\<rparr>,
      \<lparr>px = 0, py = 0, vx = 0, vy = 0\<rparr>,
      \<lparr>px = 1, py = 1, vx = 0.01, vy = 0.01\<rparr>,
      \<lparr>px = 0.25, py = 0.75, vx = -0.01, vy = 0.01\<rparr>]\<rparr>"

text \<open>
  A 40 by 30 grid whose only live cells are the first three cells of row \<open>0\<close>, in a
  state whose render grid has the same size.
\<close>

definition blinkerState :: globals where
  "blinkerState = clickState\<lparr>gridCols := 40, gridRows := 30,
     cellularGrid :=
       (replicate 30 (replicate 40 False))
         [0 := (replicate 40 False)[0 := True, 1 := True, 2 := True]]\<rparr>"

text \<open>
  A swarm whose eight points lie on the lower edge of the unit square; only the first
  point moves.
\<close>

definition edgeSwarmState :: globals where
  "edgeSwarmState = clickState\<lparr>voronoiPoints :=
     [\<lparr>px = 0.1, py = 0, vx = 0.01, vy = 0\<rparr>,
      \<lparr>px = 0.4, py = 0, vx = 0, vy = 0\<rparr>,
      \<lparr>px = 0.5, py = 0, vx = 0, vy = 0\<rparr>,
      \<lparr>px = 0.6, py = 0, vx = 0, vy = 0\<rparr>,
      \<lparr>px = 0.7, py = 0, vx = 0, vy = 0\<rparr>,
      \<lparr>px = 0.8, py = 0, vx = 0, vy = 0\<rparr>,
      \<lparr>px = 0.9, py = 0, vx = 0, vy = 0\<rparr>,
      \<lparr>px = 1, py = 0, vx = 0, vy = 0\<rparr>]\<rparr>"

subsection \<open>Noise variants of the extended script\<close>

text \<open>
  The extended variant of the script (\<^verbatim>\<open>src/unnamed/part_000\<close>) replaces the
  \<^verbatim>\<open>'noise'\<close> case of \<^verbatim>\<open>getPatternValue\<close> by an inner \<^verbatim>\<open>switch\<close> on
  \<^verbatim>\<open>pattern.noiseVariant || 'simplex'\<close>. \<open>noiseCase\<close> is the value that case assigns,
  before the normalisation; the empty string is falsy and selects \<^verbatim>\<open>'simplex'\<close>. The
  \<^verbatim>\<open>'turbulence'\<close> loop runs four times over \<open>(value, amplitude, frequency)\<close>.
\<close>

definition turbulenceStep ::
  "(real \<Rightarrow> real \<Rightarrow> real \<Rightarrow> real) \<Rightarrow> real \<Rightarrow> real \<Rightarrow> real \<Rightarrow> real \<Rightarrow> real
     \<Rightarrow> nat \<Rightarrow> real \<times> real \<times> real \<Rightarrow> real \<times> real \<times> real" where
  "turbulenceStep noise normalizedX normalizedY scl time spd i acc =
     (case acc of (value, amplitude, frequency) \<Rightarrow>
        (value + amplitude * noise (normalizedX * scl * 100 * frequency)
                               (normalizedY * scl * 100 * frequency)
                               (time * spd * 10 * frequency),
         amplitude * 0.5, frequency * 2.0))"

definition noiseCase ::
  "(real \<Rightarrow> real \<Rightarrow> real \<Rightarrow> real) \<Rightarrow> string \<Rightarrow> real \<Rightarrow> real \<Rightarrow> real \<Rightarrow> real \<Rightarrow> real
     \<Rightarrow> real" where
  "noiseCase noise noiseVariantField normalizedX normalizedY scl time spd =
     (let noiseVariant = (if noiseVariantField = [] then ''simplex'' else noiseVariantField)
      in
      if noiseVariant = ''simplex'' then
        noise (normalizedX * scl * 100) (normalizedY * scl * 100) (time * spd * 10) * 2 - 1
      else if noiseVariant = ''turbulence'' then
        (let value = fst (fold (turbulenceStep noise normalizedX normalizedY scl time spd)
                            [0, 1, 2, 3] (0, 1.0, 1.0))
         in (value / 1.875) * 2 - 1)
      else if noiseVariant = ''ridged'' then
        (let baseNoise = noise (normalizedX * scl * 100) (normalizedY * scl * 100) (time * spd * 10)
         in 1.0 - \<bar>baseNoise * 2 - 1\<bar> * 2 - 1)
      else
        noise (normalizedX * scl * 100) (normalizedY * scl * 100) (time * spd * 10) * 2 - 1)"

section \<open>Properties\<close>

subsection \<open>Scalar blend at amount zero\<close>

text \<open>
  C2. With mode \<^verbatim>\<open>'multiply'\<close> and amount \<open>0\<close> the second value is dampened to
  \<open>lerp(0.5, v2, 0) = 0.5\<close>, so the blend returns \<open>v1 / 2\<close> and not \<open>v1\<close>. This holds for
  all real \<open>v1\<close> and \<open>v2\<close>, in particular for those in \<open>[0,1]\<close>.
\<close>

theorem blendValues_multiply_zero:
  "lerp 0.5 v2 0 = 0.5 \<and> blendValues v1 v2 ''multiply'' 0 = v1 / 2"
  by (simp add: blendValues_def lerp_def)

subsection \<open>Hexadecimal colours\<close>

lemma hexGroups_Some:
  "hexGroups t = Some gs \<Longrightarrow> length t = 6 \<and> list_all isHexDigit t"
  by (erule hexGroups.elims) (simp_all split: if_splits)

lemma hexRegexExec_Some:
  assumes "hexRegexExec s = Some gs"
  shows "isSixDigitHex s"
proof (cases s)
  case Nil
  with assms show ?thesis by (simp add: hexRegexExec_def)
next
  case (Cons c rest)
  show ?thesis
  proof (cases "c = CHR ''#''")
    case True
    with Cons assms have "hexGroups rest = Some gs" by (simp add: hexRegexExec_def)
    then have "length rest = 6 \<and> list_all isHexDigit rest" by (rule hexGroups_Some)
    with Cons True show ?thesis unfolding isSixDigitHex_def by blast
  next
    case False
    with Cons assms have "hexGroups s = Some gs" by (simp add: hexRegexExec_def)
    then have "length s = 6 \<and> list_all isHexDigit s" by (rule hexGroups_Some)
    then show ?thesis unfolding isSixDigitHex_def by blast
  qed
qed

lemma hexToRgb_not_hex: "\<not> isSixDigitHex s \<Longrightarrow> hexToRgb s = white"
proof -
  assume "\<not> isSixDigitHex s"
  then have "hexRegexExec s = None"
    using hexRegexExec_Some by (cases "hexRegexExec s") auto
  then show ?thesis by (simp add: hexToRgb_def white_def)
qed

subsection \<open>Colour blend, mode add\<close>

text \<open>
  C6 (as amended). With mode \<^verbatim>\<open>'add'\<close> and amount \<open>1\<close> each channel computed by the
  \<^verbatim>\<open>switch\<close> equals \<open>clamp(c1 + c2 * v1 * v2, 0, 255)\<close> exactly, and the channel printed
  in the returned \<^verbatim>\<open>rgb(...)\<close> string is the floor of that value.
\<close>

theorem blendColors_add_full_amount:
  "blendChannel ''add'' c1 c2 (v1 * v2 * 1) = constrain (c1 + c2 * v1 * v2) 0 255 \<and>
   blendColors h1 h2 ''add'' v1 v2 1 =
     rgbString
       \<lfloor>constrain (real_of_int (red (hexToRgb h1)) + real_of_int (red (hexToRgb h2)) * v1 * v2) 0 255\<rfloor>
       \<lfloor>constrain (real_of_int (green (hexToRgb h1)) + real_of_int (green (hexToRgb h2)) * v1 * v2) 0 255\<rfloor>
       \<lfloor>constrain (real_of_int (blue (hexToRgb h1)) + real_of_int (blue (hexToRgb h2)) * v1 * v2) 0 255\<rfloor>"
  by (simp add: blendColors_def blendChannel_def Let_def mult.assoc)

text \<open>
  C6 as stated fails for the returned colour: black blended with white at
  \<open>v1 = v2 = 0.1\<close> prints the channels \<open>2, 2, 2\<close>, while the clamped sum is \<open>2.55\<close>.
\<close>

theorem blendColors_add_floor_counterexample:
  "red (hexToRgb ''#000000'') = 0 \<and> red (hexToRgb ''#ffffff'') = 255 \<and>
   blendColors ''#000000'' ''#ffffff'' ''add'' (1/10) (1/10) 1 = rgbString 2 2 2 \<and>
   real_of_int 2 \<noteq> constrain (0 + 255 * (1/10) * (1/10)) 0 255"
  by code_simp

subsection \<open>Silent fallbacks\<close>

text \<open>
  C7 (as amended). For a mode string outside
  \<open>{add, multiply, overlay, difference, screen}\<close>, \<^verbatim>\<open>blendValues\<close> returns \<open>v1\<close>
  unchanged; the \<^verbatim>\<open>switch\<close> of \<^verbatim>\<open>blendColors\<close> computes each channel as the linear
  interpolation \<open>lerp(c1, c2, v1 * v2 * amount)\<close>, and the colour that \<^verbatim>\<open>blendColors\<close>
  returns prints the \<^verbatim>\<open>Math.floor\<close> of each of these channels. For a string that does
  not parse as a six-digit hexadecimal colour \<^verbatim>\<open>hexToRgb\<close> returns white. The three
  functions have no failing branch.
\<close>

theorem blend_and_colour_fallbacks:
  "(mode \<notin> {''add'', ''multiply'', ''overlay'', ''difference'', ''screen''} \<longrightarrow>
      blendValues v1 v2 mode amount = v1 \<and>
      blendChannel mode c1 c2 (v1 * v2 * amount) = lerp c1 c2 (v1 * v2 * amount) \<and>
      blendColors h1 h2 mode v1 v2 amount =
        rgbString
          \<lfloor>lerp (real_of_int (red (hexToRgb h1))) (real_of_int (red (hexToRgb h2))) (v1 * v2 * amount)\<rfloor>
          \<lfloor>lerp (real_of_int (green (hexToRgb h1))) (real_of_int (green (hexToRgb h2))) (v1 * v2 * amount)\<rfloor>
          \<lfloor>lerp (real_of_int (blue (hexToRgb h1))) (real_of_int (blue (hexToRgb h2))) (v1 * v2 * amount)\<rfloor>) \<and>
   (\<not> isSixDigitHex s \<longrightarrow> hexToRgb s = \<lparr>red = 255, green = 255, blue = 255\<rparr>)"
  using hexToRgb_not_hex [of s]
  by (simp add: blendValues_def blendColors_def blendChannel_def Let_def white_def)

theorem blend_and_colour_fallbacks_witness:
  "''normal'' \<notin> {''add'', ''multiply'', ''overlay'', ''difference'', ''screen''} \<and>
   \<not> isSixDigitHex ''red'' \<and>
   blendValues (3/10) (9/10) ''normal'' (1/2) = 3/10 \<and>
   blendColors ''#102030'' ''#ffffff'' ''normal'' 1 1 (1/2) = ''rgb(135, 143, 151)'' \<and>
   hexToRgb ''red'' = \<lparr>red = 255, green = 255, blue = 255\<rparr>"
proof -
  have m: "''normal'' \<notin> {''add'', ''multiply'', ''overlay'', ''difference'', ''screen''}"
    by simp
  have h: "\<not> isSixDigitHex ''red''"
    by (auto simp: isSixDigitHex_def)
  have v: "rgbString
      \<lfloor>lerp (real_of_int (red (hexToRgb ''#102030''))) (real_of_int (red (hexToRgb ''#ffffff''))) (1 * 1 * (1/2))\<rfloor>
      \<lfloor>lerp (real_of_int (green (hexToRgb ''#102030''))) (real_of_int (green (hexToRgb ''#ffffff''))) (1 * 1 * (1/2))\<rfloor>
      \<lfloor>lerp (real_of_int (blue (hexToRgb ''#102030''))) (real_of_int (blue (hexToRgb ''#ffffff''))) (1 * 1 * (1/2))\<rfloor>
    = ''rgb(135, 143, 151)''"
    by code_simp
  from m h v show ?thesis
    using blend_and_colour_fallbacks
      [where mode = "''normal''" and ?v1.0 = "3/10" and ?v2.0 = "9/10" and amount = "1/2"
         and s = "''red''"]
      blend_and_colour_fallbacks
      [where mode = "''normal''" and ?v1.0 = 1 and ?v2.0 = 1 and amount = "1/2"
         and ?h1.0 = "''#102030''" and ?h2.0 = "''#ffffff''" and s = "''red''"]
    by simp
qed

text \<open>
  C7 as stated fails for the colour that \<^verbatim>\<open>blendColors\<close> returns: with the unknown mode
  \<^verbatim>\<open>'normal'\<close>, the colours \<^verbatim>\<open>#102030\<close> and \<^verbatim>\<open>#ffffff\<close> and the blend factor
  \<open>1 * 1 * 0.5\<close>, the interpolated channels are \<open>135.5\<close>, \<open>143.5\<close> and \<open>151.5\<close>, while
  the returned colour has the channels \<open>135\<close>, \<open>143\<close> and \<open>151\<close>.
\<close>

theorem blendColors_fallback_floor_counterexample:
  "''normal'' \<notin> {''add'', ''multiply'', ''overlay'', ''difference'', ''screen''} \<and>
   blendColors ''#102030'' ''#ffffff'' ''normal'' 1 1 (1/2) = rgbString 135 143 151 \<and>
   lerp (real_of_int (red (hexToRgb ''#102030''))) (real_of_int (red (hexToRgb ''#ffffff'')))
     (1 * 1 * (1/2)) = 271/2 \<and>
   lerp (real_of_int (green (hexToRgb ''#102030''))) (real_of_int (green (hexToRgb ''#ffffff'')))
     (1 * 1 * (1/2)) = 287/2 \<and>
   lerp (real_of_int (blue (hexToRgb ''#102030''))) (real_of_int (blue (hexToRgb ''#ffffff'')))
     (1 * 1 * (1/2)) = 303/2 \<and>
   real_of_int 135 \<noteq> 271/2 \<and> real_of_int 143 \<noteq> 287/2 \<and> real_of_int 151 \<noteq> 303/2"
  by code_simp

subsection \<open>Glyph mapping\<close>

lemma charIndex_eq:
  "charIndex v ramp =
     constrain \<lfloor>v * real_of_int (int (length ramp) - 1)\<rfloor> 0 (int (length ramp) - 1)"
  by (simp add: charIndex_def map_range_def)

lemma nat_int_pred: "nat (int n - 1) = n - 1"
  by (cases n) simp_all

lemma charIndex_bounds:
  assumes "ramp \<noteq> []"
  shows "0 \<le> charIndex v ramp \<and> charIndex v ramp < int (length ramp)"
proof -
  from assms have "0 < length ramp" by simp
  then show ?thesis by (simp add: charIndex_eq constrain_def)
qed

lemma selectChar_zero: "ramp \<noteq> [] \<Longrightarrow> selectChar 0 ramp = Some (hd ramp)"
  by (simp add: selectChar_def charIndex_eq constrain_def hd_conv_nth)

lemma selectChar_one: "ramp \<noteq> [] \<Longrightarrow> selectChar 1 ramp = Some (last ramp)"
  by (simp add: selectChar_def charIndex_eq constrain_def last_conv_nth nat_int_pred)

lemma selectChar_singleton: "length ramp = 1 \<Longrightarrow> selectChar v ramp = Some (hd ramp)"
  by (cases ramp) (simp_all add: selectChar_def charIndex_eq constrain_def)

text \<open>
  C5. For a non-empty ramp and any real value, the index
  \<open>floor(value * (length - 1))\<close> clamped to \<open>[0, length - 1]\<close> is a valid index of the
  ramp, so a character is always selected; value \<open>0\<close> selects the first character, value
  \<open>1\<close> the last, and a ramp of length one always yields its only character.
\<close>

theorem glyph_mapping_in_bounds:
  "ramp \<noteq> [] \<Longrightarrow>
   charIndex v ramp =
     constrain \<lfloor>v * real_of_int (int (length ramp) - 1)\<rfloor> 0 (int (length ramp) - 1) \<and>
   0 \<le> charIndex v ramp \<and> charIndex v ramp < int (length ramp) \<and>
   selectChar v ramp = Some (ramp ! nat (charIndex v ramp)) \<and>
   selectChar 0 ramp = Some (hd ramp) \<and>
   selectChar 1 ramp = Some (last ramp) \<and>
   (length ramp = 1 \<longrightarrow> selectChar v ramp = Some (hd ramp))"
  using charIndex_eq [of v ramp] charIndex_bounds [of ramp v]
    selectChar_zero [of ramp] selectChar_one [of ramp] selectChar_singleton [of ramp v]
  by (simp add: selectChar_def Let_def)

theorem glyph_mapping_in_bounds_witness:
  "'' .:-=+*#%@'' \<noteq> [] \<and> length ''#'' = 1 \<and>
   charIndex (5/2) '' .:-=+*#%@'' = 9 \<and>
   selectChar (5/2) '' .:-=+*#%@'' = Some (CHR ''@'') \<and>
   selectChar 0 '' .:-=+*#%@'' = Some (CHR '' '') \<and>
   selectChar 1 '' .:-=+*#%@'' = Some (CHR ''@'') \<and>
   selectChar (-3) ''#'' = Some (CHR ''#'')"
proof -
  have n: "'' .:-=+*#%@'' \<noteq> []" and l: "length ''#'' = 1" and m: "''#'' \<noteq> []"
    by simp_all
  have i: "constrain \<lfloor>5/2 * real_of_int (int (length '' .:-=+*#%@'') - 1)\<rfloor> 0
             (int (length '' .:-=+*#%@'') - 1) = 9"
    by (simp add: constrain_def)
  from glyph_mapping_in_bounds [OF n, of "5/2"] i
  have a: "charIndex (5/2) '' .:-=+*#%@'' = 9"
    and b: "selectChar (5/2) '' .:-=+*#%@'' = Some ('' .:-=+*#%@'' ! nat 9)"
    and c: "selectChar 0 '' .:-=+*#%@'' = Some (hd '' .:-=+*#%@'')"
    and d: "selectChar 1 '' .:-=+*#%@'' = Some (last '' .:-=+*#%@'')"
    by simp_all
  from glyph_mapping_in_bounds [OF m, of "-3"] l
  have e: "selectChar (-3) ''#'' = Some (hd ''#'')"
    by blast
  have "'' .:-=+*#%@'' ! nat 9 = CHR ''@''" by code_simp
  with n l a b c d e show ?thesis by simp
qed

subsection \<open>Click-effect lifecycle\<close>

lemma updateInteractiveEffects_alive:
  "e \<in> set (clickEffects (updateInteractiveEffects s)) \<Longrightarrow> life e > 0"
  by (auto simp: updateInteractiveEffects_def)

lemma updateInteractiveEffects_once:
  "clickEffects (updateInteractiveEffects s) =
     map (\<lambda>e. e\<lparr>life := life e - 0.016\<rparr>)
       (filter (\<lambda>e. \<not> life e - 0.016 \<le> 0) (clickEffects s))"
  by (induction "clickEffects s" arbitrary: s)
     (auto simp: updateInteractiveEffects_def filter_map o_def not_le)

lemma decay_step:
  "filter (\<lambda>e. life e > 0) (map (\<lambda>e. e\<lparr>life := life e - 0.016\<rparr>)
      (map (\<lambda>e. e\<lparr>life := life e - d\<rparr>) (filter (\<lambda>e. life e - d > 0) es))) =
   map (\<lambda>e. e\<lparr>life := life e - (d + 0.016)\<rparr>) (filter (\<lambda>e. life e - (d + 0.016) > 0) es)"
  by (induction es) (auto simp: algebra_simps)

lemma updateInteractiveEffects_pow:
  "clickEffects ((updateInteractiveEffects ^^ Suc n) s) =
     map (\<lambda>e. e\<lparr>life := life e - real (Suc n) * 0.016\<rparr>)
       (filter (\<lambda>e. life e - real (Suc n) * 0.016 > 0) (clickEffects s))"
proof (induction n)
  case 0
  show ?case
    by (induction "clickEffects s") (auto simp: updateInteractiveEffects_def filter_map o_def)
next
  case (Suc n)
  have "clickEffects ((updateInteractiveEffects ^^ Suc (Suc n)) s) =
        filter (\<lambda>e. life e > 0) (map (\<lambda>e. e\<lparr>life := life e - 0.016\<rparr>)
          (clickEffects ((updateInteractiveEffects ^^ Suc n) s)))"
    by (simp add: updateInteractiveEffects_def)
  also have "\<dots> = map (\<lambda>e. e\<lparr>life := life e - (real (Suc n) * 0.016 + 0.016)\<rparr>)
       (filter (\<lambda>e. life e - (real (Suc n) * 0.016 + 0.016) > 0) (clickEffects s))"
    unfolding Suc.IH by (rule decay_step)
  also have "real (Suc n) * 0.016 + 0.016 = real (Suc (Suc n)) * (0.016::real)"
    by (simp add: algebra_simps)
  finally show ?case .
qed

lemma mousePressed_clickEffects:
  "clickEffects (mousePressed s) = clickEffects s \<or>
   (life (last (clickEffects (mousePressed s))) = 3 \<and>
    maxLife (last (clickEffects (mousePressed s))) = 3)"
  by (simp add: mousePressed_def Let_def)

lemma mousePressed_push:
  assumes "clickEffects (mousePressed s) = clickEffects s @ [e0]"
  shows "life e0 = 3 \<and> maxLife e0 = 3"
proof -
  from assms have "clickEffects (mousePressed s) \<noteq> clickEffects s" by simp
  with mousePressed_clickEffects [of s]
  have "life (last (clickEffects (mousePressed s))) = 3 \<and>
        maxLife (last (clickEffects (mousePressed s))) = 3" by blast
  then show ?thesis unfolding assms by simp
qed

lemma updateInteractiveEffects_pow_pos:
  assumes "0 < m"
  shows "clickEffects ((updateInteractiveEffects ^^ m) s) =
     map (\<lambda>e. e\<lparr>life := life e - real m * 0.016\<rparr>)
       (filter (\<lambda>e. life e - real m * 0.016 > 0) (clickEffects s))"
proof -
  from assms obtain n where m: "m = Suc n" by (cases m) simp_all
  show ?thesis unfolding m by (rule updateInteractiveEffects_pow)
qed

lemma fresh_effect_survives:
  assumes "clickEffects t = es @ [e0]" and "life e0 = 3" and "0 < m" and "real m * 0.016 < 3"
  shows "clickEffects ((updateInteractiveEffects ^^ m) t) =
         map (\<lambda>e. e\<lparr>life := life e - real m * 0.016\<rparr>)
           (filter (\<lambda>e. life e - real m * 0.016 > 0) es) @
         [e0\<lparr>life := 3 - real m * 0.016\<rparr>]"
proof -
  from assms(2,4) have "life e0 - real m * 0.016 > 0" by simp
  then show ?thesis
    unfolding updateInteractiveEffects_pow_pos [OF assms(3)] assms(1)
    by (simp add: assms(2))
qed

lemma fresh_effect_removed:
  assumes "clickEffects t = es @ [e0]" and "life e0 = 3" and "3 / 0.016 \<le> real m"
  shows "clickEffects ((updateInteractiveEffects ^^ m) t) =
         map (\<lambda>e. e\<lparr>life := life e - real m * 0.016\<rparr>)
           (filter (\<lambda>e. life e - real m * 0.016 > 0) es)"
proof -
  from assms(3) have ge: "3 \<le> real m * 0.016" by (simp add: field_simps)
  then have "0 < m" by (cases m) simp_all
  moreover from ge assms(2) have "\<not> life e0 - real m * 0.016 > 0" by simp
  ultimately show ?thesis
    unfolding assms(1) using updateInteractiveEffects_pow_pos [of m t] assms(1) by simp
qed

lemma fresh_effect_187:
  assumes "clickEffects t = es @ [e0]" and "life e0 = 3"
  shows "clickEffects ((updateInteractiveEffects ^^ 187) t) =
         map (\<lambda>e. e\<lparr>life := life e - 187 * 0.016\<rparr>)
           (filter (\<lambda>e. life e - 187 * 0.016 > 0) es) @ [e0\<lparr>life := 1/125\<rparr>]"
proof -
  have "(0::nat) < 187" and "real 187 * 0.016 < 3" by simp_all
  from fresh_effect_survives [OF assms this]
  have "clickEffects ((updateInteractiveEffects ^^ 187) t) =
         map (\<lambda>e. e\<lparr>life := life e - real 187 * 0.016\<rparr>)
           (filter (\<lambda>e. life e - real 187 * 0.016 > 0) es) @
         [e0\<lparr>life := 3 - real 187 * 0.016\<rparr>]" .
  moreover have "3 - real 187 * 0.016 = (1/125::real)" by simp
  moreover have "real 187 = 187" by simp
  ultimately show ?thesis by (simp only:)
qed

text \<open>
  C8. One update subtracts the frame delta \<open>0.016\<close> from the life of every active click
  effect and removes exactly the effects whose life is then \<open>\<le> 0\<close>, so no effect of the
  active set has life \<open>\<le> 0\<close> after an update. An effect pushed by \<^verbatim>\<open>mousePressed\<close>
  starts with \<open>life = maxLife = 3.0\<close>; it is still active (with life \<open>0.008\<close>) after 187
  updates and is gone after every number of updates \<open>m \<ge> 3.0 / 0.016 = 187.5\<close>, the other
  effects decaying as if it had never been pushed.
\<close>

theorem click_effect_lifecycle:
  "(\<forall>e \<in> set (clickEffects (updateInteractiveEffects s)). life e > 0) \<and>
   clickEffects (updateInteractiveEffects s) =
     map (\<lambda>e. e\<lparr>life := life e - 0.016\<rparr>)
       (filter (\<lambda>e. \<not> life e - 0.016 \<le> 0) (clickEffects s)) \<and>
   (\<forall>e0. clickEffects (mousePressed s) = clickEffects s @ [e0] \<longrightarrow>
      life e0 = 3 \<and> maxLife e0 = 3 \<and>
      clickEffects ((updateInteractiveEffects ^^ 187) (mousePressed s)) =
        map (\<lambda>e. e\<lparr>life := life e - 187 * 0.016\<rparr>)
          (filter (\<lambda>e. life e - 187 * 0.016 > 0) (clickEffects s)) @ [e0\<lparr>life := 1/125\<rparr>] \<and>
      (\<forall>m. 3 / 0.016 \<le> real m \<longrightarrow>
         clickEffects ((updateInteractiveEffects ^^ m) (mousePressed s)) =
           map (\<lambda>e. e\<lparr>life := life e - real m * 0.016\<rparr>)
             (filter (\<lambda>e. life e - real m * 0.016 > 0) (clickEffects s))))"
proof (intro conjI ballI allI impI)
  fix e assume "e \<in> set (clickEffects (updateInteractiveEffects s))"
  then show "life e > 0" by (rule updateInteractiveEffects_alive)
next
  show "clickEffects (updateInteractiveEffects s) =
     map (\<lambda>e. e\<lparr>life := life e - 0.016\<rparr>)
       (filter (\<lambda>e. \<not> life e - 0.016 \<le> 0) (clickEffects s))"
    by (rule updateInteractiveEffects_once)
next
  fix e0 assume p: "clickEffects (mousePressed s) = clickEffects s @ [e0]"
  from mousePressed_push [OF p] show "life e0 = 3" and l: "maxLife e0 = 3" by simp_all
  from mousePressed_push [OF p] have l3: "life e0 = 3" by simp
  show "clickEffects ((updateInteractiveEffects ^^ 187) (mousePressed s)) =
        map (\<lambda>e. e\<lparr>life := life e - 187 * 0.016\<rparr>)
          (filter (\<lambda>e. life e - 187 * 0.016 > 0) (clickEffects s)) @ [e0\<lparr>life := 1/125\<rparr>]"
    by (rule fresh_effect_187 [OF p l3])
  fix m :: nat assume "3 / 0.016 \<le> real m"
  then show "clickEffects ((updateInteractiveEffects ^^ m) (mousePressed s)) =
           map (\<lambda>e. e\<lparr>life := life e - real m * 0.016\<rparr>)
             (filter (\<lambda>e. life e - real m * 0.016 > 0) (clickEffects s))"
    by (rule fresh_effect_removed [OF p l3])
qed

lemma mousePressed_clickState:
  "clickEffects (mousePressed clickState) = clickEffects clickState @ [clickAtCentre]"
  by (simp add: mousePressed_def clickState_def clickAtCentre_def Let_def)

theorem click_effect_lifecycle_witness:
  "clickEffects (mousePressed clickState) = clickEffects clickState @ [clickAtCentre] \<and>
   3 / 0.016 \<le> real 188 \<and>
   clickEffects (updateInteractiveEffects (mousePressed clickState)) =
     [clickAtCentre\<lparr>life := 2.984\<rparr>] \<and>
   clickEffects ((updateInteractiveEffects ^^ 187) (mousePressed clickState)) =
     [clickAtCentre\<lparr>life := 0.008\<rparr>] \<and>
   clickEffects ((updateInteractiveEffects ^^ 188) (mousePressed clickState)) = []"
proof -
  have p: "clickEffects (mousePressed clickState) = clickEffects clickState @ [clickAtCentre]"
    by (rule mousePressed_clickState)
  have e: "clickEffects clickState = []" by (simp add: clickState_def)
  have m: "3 / 0.016 \<le> real 188" by simp
  have u: "clickEffects (updateInteractiveEffects (mousePressed clickState)) =
     [clickAtCentre\<lparr>life := 2.984\<rparr>]"
    unfolding updateInteractiveEffects_def p e by (simp add: clickAtCentre_def)
  note L = click_effect_lifecycle [of clickState]
  from L p have a: "clickEffects ((updateInteractiveEffects ^^ 187) (mousePressed clickState)) =
        map (\<lambda>e. e\<lparr>life := life e - 187 * 0.016\<rparr>)
          (filter (\<lambda>e. life e - 187 * 0.016 > 0) (clickEffects clickState)) @
        [clickAtCentre\<lparr>life := 1/125\<rparr>]"
    by blast
  from L p m have b: "clickEffects ((updateInteractiveEffects ^^ 188) (mousePressed clickState)) =
           map (\<lambda>e. e\<lparr>life := life e - real 188 * 0.016\<rparr>)
             (filter (\<lambda>e. life e - real 188 * 0.016 > 0) (clickEffects clickState))"
    by blast
  have "(1/125::real) = 0.008" by simp
  with p m u a b e show ?thesis by (simp only: append_Nil list.map filter.simps simp_thms)
qed

subsection \<open>Escape-time fractals\<close>

lemma escapeLoop_le: "i \<le> maxIter \<Longrightarrow> escapeLoop cx cy maxIter i zx zy \<le> maxIter"
proof (induction cx cy maxIter i zx zy rule: escapeLoop.induct)
  case (1 cx cy maxIter i zx zy)
  show ?case
  proof (cases "i < maxIter")
    case True
    show ?thesis
    proof (cases "zx * zx + zy * zy > 4")
      case True
      with \<open>i < maxIter\<close> show ?thesis by (subst escapeLoop.simps) simp
    next
      case False
      with \<open>i < maxIter\<close> "1.IH" show ?thesis by (subst escapeLoop.simps) simp
    qed
  next
    case False
    then show ?thesis by (subst escapeLoop.simps) simp
  qed
qed

lemma mandelbrotIteration_le: "mandelbrotIteration cx cy maxIter \<le> maxIter"
  unfolding mandelbrotIteration_def by (rule escapeLoop_le) simp

lemma juliaIteration_le: "juliaIteration zx zy c maxIter \<le> maxIter"
  unfolding juliaIteration_def by (rule escapeLoop_le) simp

lemma count_normalised:
  assumes "n \<le> (20::nat)"
  shows "1/2 \<le> (real n / 20 + 1) / 2 \<and> (real n / 20 + 1) / 2 \<le> 1"
proof -
  from assms have "real n \<le> 20" by simp
  then show ?thesis by simp
qed

lemma getPatternValue_mandelbrot:
  "\<exists>n \<le> 20. getPatternValue noise s x y (p\<lparr>ptype := ''mandelbrot''\<rparr>) t =
       Inr (Finite ((real n / 20 + 1) / 2), s)"
  using mandelbrotIteration_le [of _ _ 20]
  by (simp add: getPatternValue_def normalize_def Let_def)

lemma getPatternValue_julia:
  "\<exists>n \<le> 20. getPatternValue noise s x y (p\<lparr>ptype := ''julia''\<rparr>) t =
       Inr (Finite ((real n / 20 + 1) / 2), s)"
  using juliaIteration_le [of _ _ _ 20]
  by (simp add: getPatternValue_def normalize_def Let_def)

text \<open>
  C10. The escape-time count of \<^verbatim>\<open>mandelbrotIteration\<close> and \<^verbatim>\<open>juliaIteration\<close> never
  exceeds \<open>maxIter\<close>. For the kinds \<^verbatim>\<open>mandelbrot\<close> and \<^verbatim>\<open>julia\<close> the raw scalar is
  \<open>n / 20\<close> with a count \<open>n \<le> 20\<close>, so the value returned by \<^verbatim>\<open>getPatternValue\<close> is
  \<open>(n / 20 + 1) / 2\<close> and lies in \<open>[0.5, 1]\<close>; the state is left unchanged.
\<close>

theorem fractal_upper_half:
  "0 < gridCols s \<Longrightarrow> 0 < gridRows s \<Longrightarrow>
   mandelbrotIteration cx cy maxIter \<le> maxIter \<and>
   juliaIteration zx zy c maxIter \<le> maxIter \<and>
   (\<exists>n v. n \<le> 20 \<and> v = (real n / 20 + 1) / 2 \<and> 1/2 \<le> v \<and> v \<le> 1 \<and>
      getPatternValue noise s x y (p\<lparr>ptype := ''mandelbrot''\<rparr>) t = Inr (Finite v, s)) \<and>
   (\<exists>n v. n \<le> 20 \<and> v = (real n / 20 + 1) / 2 \<and> 1/2 \<le> v \<and> v \<le> 1 \<and>
      getPatternValue noise s x y (p\<lparr>ptype := ''julia''\<rparr>) t = Inr (Finite v, s))"
proof (intro conjI)
  show "mandelbrotIteration cx cy maxIter \<le> maxIter" by (rule mandelbrotIteration_le)
  show "juliaIteration zx zy c maxIter \<le> maxIter" by (rule juliaIteration_le)
  from getPatternValue_mandelbrot [of noise s x y p t] obtain n where
    "n \<le> 20" "getPatternValue noise s x y (p\<lparr>ptype := ''mandelbrot''\<rparr>) t =
       Inr (Finite ((real n / 20 + 1) / 2), s)" by blast
  with count_normalised [of n]
  show "\<exists>n v. n \<le> 20 \<and> v = (real n / 20 + 1) / 2 \<and> 1/2 \<le> v \<and> v \<le> 1 \<and>
      getPatternValue noise s x y (p\<lparr>ptype := ''mandelbrot''\<rparr>) t = Inr (Finite v, s)"
    by blast
  from getPatternValue_julia [of noise s x y p t] obtain n where
    "n \<le> 20" "getPatternValue noise s x y (p\<lparr>ptype := ''julia''\<rparr>) t =
       Inr (Finite ((real n / 20 + 1) / 2), s)" by blast
  with count_normalised [of n]
  show "\<exists>n v. n \<le> 20 \<and> v = (real n / 20 + 1) / 2 \<and> 1/2 \<le> v \<and> v \<le> 1 \<and>
      getPatternValue noise s x y (p\<lparr>ptype := ''julia''\<rparr>) t = Inr (Finite v, s)"
    by blast
qed

theorem fractal_upper_half_witness:
  "0 < gridCols clickState \<and> 0 < gridRows clickState \<and>
   mandelbrotIteration (-2) (- (17/10)) 20 \<le> 20 \<and>
   mandelbrotIteration (-2) (- (17/10)) 20 = 1 \<and>
   juliaIteration (-2) (-2) (0, 4/5) 20 = 0 \<and>
   getPatternValue (\<lambda>a b c. 0) clickState 0 0
     \<lparr>ptype = ''mandelbrot'', speed = 1/100, scale = 1/20\<rparr> 0 = Inr (Finite (21/40), clickState) \<and>
   getPatternValue (\<lambda>a b c. 0) clickState 0 0
     \<lparr>ptype = ''julia'', speed = 1/100, scale = 1/20\<rparr> 0 = Inr (Finite (1/2), clickState)"
proof -
  have g: "0 < gridCols clickState" "0 < gridRows clickState"
    by (simp_all add: clickState_def)
  note T = fractal_upper_half [OF g, where cx = "-2" and cy = "- (17/10)" and maxIter = 20]
  have m: "mandelbrotIteration (-2) (- (17/10)) 20 = 1" by code_simp
  have j: "juliaIteration (-2) (-2) (0, 4/5) 20 = 0" by code_simp
  have vm: "getPatternValue (\<lambda>a b c. 0) clickState 0 0
     \<lparr>ptype = ''mandelbrot'', speed = 1/100, scale = 1/20\<rparr> 0 = Inr (Finite (21/40), clickState)"
    by (simp add: getPatternValue_def normalize_def Let_def m)
  have vj: "getPatternValue (\<lambda>a b c. 0) clickState 0 0
     \<lparr>ptype = ''julia'', speed = 1/100, scale = 1/20\<rparr> 0 = Inr (Finite (1/2), clickState)"
    by (simp add: getPatternValue_def normalize_def Let_def j)
  from T g m j vm vj show ?thesis by simp
qed

subsection \<open>Voronoi swarm\<close>

lemma constrain_unit: "0 \<le> constrain (v::real) 0 1 \<and> constrain v 0 1 \<le> 1"
  by (simp add: constrain_def)

lemma advancePoint_inUnitSquare: "inUnitSquare (advancePoint p)"
  using constrain_unit [of "px p + vx p"] constrain_unit [of "py p + vy p"]
  by (simp add: inUnitSquare_def advancePoint_def Let_def)

lemma voronoiPoints_getVoronoiValue:
  "voronoiPoints (snd (getVoronoiValue x y t s)) = map advancePoint (voronoiPoints s)"
  by (simp add: getVoronoiValue_def Let_def)

lemma getVoronoiValue_inUnitSquare:
  "list_all inUnitSquare (voronoiPoints (snd (getVoronoiValue x y t s)))"
  unfolding voronoiPoints_getVoronoiValue
  by (simp add: list_all_iff advancePoint_inUnitSquare)

lemma afterVoronoiCalls_length:
  "length (voronoiPoints (afterVoronoiCalls calls s)) = length (voronoiPoints s)"
proof (induction calls arbitrary: s)
  case Nil
  show ?case by (simp add: afterVoronoiCalls_def)
next
  case (Cons c calls)
  obtain x y t where c: "c = (x, y, t)" by (cases c) auto
  have "afterVoronoiCalls (c # calls) s =
        afterVoronoiCalls calls (snd (getVoronoiValue x y t s))"
    by (simp add: afterVoronoiCalls_def c)
  with Cons.IH [of "snd (getVoronoiValue x y t s)"] show ?case
    by (simp add: voronoiPoints_getVoronoiValue)
qed

lemma afterVoronoiCalls_inUnitSquare:
  "list_all inUnitSquare (voronoiPoints s) \<Longrightarrow>
   list_all inUnitSquare (voronoiPoints (afterVoronoiCalls calls s))"
proof (induction calls arbitrary: s)
  case Nil
  then show ?case by (simp add: afterVoronoiCalls_def)
next
  case (Cons c calls)
  obtain x y t where c: "c = (x, y, t)" by (cases c) auto
  have "afterVoronoiCalls (c # calls) s =
        afterVoronoiCalls calls (snd (getVoronoiValue x y t s))"
    by (simp add: afterVoronoiCalls_def c)
  with Cons.IH [OF getVoronoiValue_inUnitSquare [of x y t s]] show ?case by simp
qed

text \<open>
  C4. If every point of the swarm starts with both coordinates in \<open>[0,1]\<close>, then after
  any sequence of calls of \<^verbatim>\<open>getVoronoiValue\<close> (with any arguments) every point still
  has both coordinates in \<open>[0,1]\<close>, and the number of points is unchanged. One call moves
  each point by its velocity, clamps the position to \<open>[0,1]\<close> and negates a velocity
  component whose coordinate reached or passed \<open>0\<close> or \<open>1\<close>.
\<close>

theorem voronoi_points_stay_in_unit_square:
  "\<forall>p \<in> set (voronoiPoints s). 0 \<le> px p \<and> px p \<le> 1 \<and> 0 \<le> py p \<and> py p \<le> 1 \<Longrightarrow>
   (\<forall>p \<in> set (voronoiPoints (afterVoronoiCalls calls s)).
      0 \<le> px p \<and> px p \<le> 1 \<and> 0 \<le> py p \<and> py p \<le> 1) \<and>
   length (voronoiPoints (afterVoronoiCalls calls s)) = length (voronoiPoints s) \<and>
   voronoiPoints (snd (getVoronoiValue x y t s)) = map advancePoint (voronoiPoints s) \<and>
   px (advancePoint q) = constrain (px q + vx q) 0 1 \<and>
   py (advancePoint q) = constrain (py q + vy q) 0 1 \<and>
   vx (advancePoint q) = (if px q + vx q \<le> 0 \<or> px q + vx q \<ge> 1 then - vx q else vx q) \<and>
   vy (advancePoint q) = (if py q + vy q \<le> 0 \<or> py q + vy q \<ge> 1 then - vy q else vy q)"
proof -
  assume "\<forall>p \<in> set (voronoiPoints s). 0 \<le> px p \<and> px p \<le> 1 \<and> 0 \<le> py p \<and> py p \<le> 1"
  then have "list_all inUnitSquare (voronoiPoints s)"
    by (simp add: list_all_iff inUnitSquare_def)
  then have "list_all inUnitSquare (voronoiPoints (afterVoronoiCalls calls s))"
    by (rule afterVoronoiCalls_inUnitSquare)
  then have "\<forall>p \<in> set (voronoiPoints (afterVoronoiCalls calls s)).
      0 \<le> px p \<and> px p \<le> 1 \<and> 0 \<le> py p \<and> py p \<le> 1"
    by (simp add: list_all_iff inUnitSquare_def)
  moreover have "px (advancePoint q) = constrain (px q + vx q) 0 1 \<and>
   py (advancePoint q) = constrain (py q + vy q) 0 1 \<and>
   vx (advancePoint q) = (if px q + vx q \<le> 0 \<or> px q + vx q \<ge> 1 then - vx q else vx q) \<and>
   vy (advancePoint q) = (if py q + vy q \<le> 0 \<or> py q + vy q \<ge> 1 then - vy q else vy q)"
    by (simp add: advancePoint_def Let_def)
  ultimately show ?thesis
    using afterVoronoiCalls_length [of calls s] voronoiPoints_getVoronoiValue [of x y t s]
    by blast
qed

theorem voronoi_points_stay_in_unit_square_witness:
  "list_all inUnitSquare (voronoiPoints swarmState) \<and>
   length (voronoiPoints swarmState) = 8 \<and>
   voronoiPoints (afterVoronoiCalls [(0, 0, 0), (1/2, 1/2, 1/100)] swarmState) =
     [\<lparr>px = 1 / 100, py = 127 / 250, vx = 1 / 100, vy = 1 / 250\<rparr>,
      \<lparr>px = 99 / 100, py = 97 / 500, vx = - (1 / 100), vy = - (3 / 1000)\<rparr>,
      \<lparr>px = 38 / 125, py = 1 / 200, vx = 1 / 500, vy = 1 / 200\<rparr>,
      \<lparr>px = 86 / 125, py = 124 / 125, vx = - (3 / 500), vy = - (1 / 125)\<rparr>,
      \<lparr>px = 251 / 500, py = 251 / 500, vx = 1 / 1000, vy = 1 / 1000\<rparr>,
      \<lparr>px = 0, py = 0, vx = 0, vy = 0\<rparr>,
      \<lparr>px = 99 / 100, py = 99 / 100, vx = - (1 / 100), vy = - (1 / 100)\<rparr>,
      \<lparr>px = 23 / 100, py = 77 / 100, vx = - (1 / 100), vy = 1 / 100\<rparr>] \<and>
   list_all inUnitSquare
     (voronoiPoints (afterVoronoiCalls [(0, 0, 0), (1/2, 1/2, 1/100)] swarmState)) \<and>
   length (voronoiPoints (afterVoronoiCalls [(0, 0, 0), (1/2, 1/2, 1/100)] swarmState)) = 8"
proof -
  have h: "list_all inUnitSquare (voronoiPoints swarmState)"
    by (simp add: swarmState_def inUnitSquare_def)
  then have h': "\<forall>p \<in> set (voronoiPoints swarmState).
      0 \<le> px p \<and> px p \<le> 1 \<and> 0 \<le> py p \<and> py p \<le> 1"
    by (auto simp: list_all_iff inUnitSquare_def)
  have l: "length (voronoiPoints swarmState) = 8"
    by (simp add: swarmState_def)
  note T = voronoi_points_stay_in_unit_square
    [OF h', where calls = "[(0, 0, 0), (1/2, 1/2, 1/100)]"]
  from T have a: "list_all inUnitSquare
     (voronoiPoints (afterVoronoiCalls [(0, 0, 0), (1/2, 1/2, 1/100)] swarmState))"
    by (auto simp: list_all_iff inUnitSquare_def)
  from T l have b:
    "length (voronoiPoints (afterVoronoiCalls [(0, 0, 0), (1/2, 1/2, 1/100)] swarmState)) = 8"
    by (simp only:)
  have "voronoiPoints (afterVoronoiCalls [(0, 0, 0), (1/2, 1/2, 1/100)] swarmState) =
        map advancePoint (map advancePoint (voronoiPoints swarmState))"
    by (simp add: afterVoronoiCalls_def voronoiPoints_getVoronoiValue)
  also have "\<dots> =
     [\<lparr>px = 1 / 100, py = 127 / 250, vx = 1 / 100, vy = 1 / 250\<rparr>,
      \<lparr>px = 99 / 100, py = 97 / 500, vx = - (1 / 100), vy = - (3 / 1000)\<rparr>,
      \<lparr>px = 38 / 125, py = 1 / 200, vx = 1 / 500, vy = 1 / 200\<rparr>,
      \<lparr>px = 86 / 125, py = 124 / 125, vx = - (3 / 500), vy = - (1 / 125)\<rparr>,
      \<lparr>px = 251 / 500, py = 251 / 500, vx = 1 / 1000, vy = 1 / 1000\<rparr>,
      \<lparr>px = 0, py = 0, vx = 0, vy = 0\<rparr>,
      \<lparr>px = 99 / 100, py = 99 / 100, vx = - (1 / 100), vy = - (1 / 100)\<rparr>,
      \<lparr>px = 23 / 100, py = 77 / 100, vx = - (1 / 100), vy = 1 / 100\<rparr>]"
    by (simp add: swarmState_def advancePoint_def constrain_def Let_def)
  finally show ?thesis using h l a b by simp
qed

subsection \<open>Cellular automaton\<close>

lemma count_eight:
  "fold (\<lambda>dy neighbors.
       fold (\<lambda>dx neighbors.
         if dx = 0 \<and> dy = 0 then neighbors
         else if Q dx dy then neighbors + 1 else neighbors)
         [-1, 0, 1] neighbors)
       [-1, 0, 1] (0::nat) =
   length (filter (\<lambda>(dx, dy). Q dx dy)
       [(-1, -1), (0, -1), (1, -1), (-1, 0), (1, 0), (-1, 1), (0, 1), (1::int, 1::int)])"
  by simp

lemma cellAt_liveAt:
  assumes "wellFormedGrid grid"
  shows "(x \<ge> 0 \<and> x < 40 \<and> y \<ge> 0 \<and> y < 30 \<and> cellAt grid y x) = liveAt grid x y"
proof (cases "0 \<le> x \<and> x < 40 \<and> 0 \<le> y \<and> y < 30")
  case True
  then have "nat y < 30" by linarith
  with assms have "length (grid ! nat y) = 40"
    by (simp add: wellFormedGrid_def list_all_length)
  with True assms show ?thesis
    by (auto simp: cellAt_def liveAt_def wellFormedGrid_def)
next
  case False
  then show ?thesis by (auto simp: liveAt_def)
qed

lemma countNeighbors_liveNeighbours:
  assumes "wellFormedGrid grid"
  shows "countNeighbors grid x y = liveNeighbours grid x y"
proof -
  have "countNeighbors grid x y =
     fold (\<lambda>dy neighbors.
       fold (\<lambda>dx neighbors.
         if dx = 0 \<and> dy = 0 then neighbors
         else if (x + dx \<ge> 0 \<and> x + dx < 40 \<and> y + dy \<ge> 0 \<and> y + dy < 30 \<and>
                  cellAt grid (y + dy) (x + dx)) then neighbors + 1 else neighbors)
         [-1, 0, 1] neighbors)
       [-1, 0, 1] (0::nat)"
    unfolding countNeighbors_def Let_def
    by (intro arg_cong [where f = "\<lambda>f. fold f [-1, 0, 1] 0"] ext
        arg_cong [where f = "\<lambda>f. fold f [-1, 0, 1] _"]) auto
  also have "\<dots> = length (filter (\<lambda>(dx, dy).
        (x + dx \<ge> 0 \<and> x + dx < 40 \<and> y + dy \<ge> 0 \<and> y + dy < 30 \<and>
                  cellAt grid (y + dy) (x + dx)))
       [(-1, -1), (0, -1), (1, -1), (-1, 0), (1, 0), (-1, 1), (0, 1), (1::int, 1::int)])"
    by (rule count_eight)
  also have "\<dots> = liveNeighbours grid x y"
    unfolding liveNeighbours_def cellAt_liveAt [OF assms] ..
  finally show ?thesis .
qed

lemma upto_nth: "0 \<le> i \<Longrightarrow> i \<le> j \<Longrightarrow> [0..j] ! nat i = i"
  using nth_upto [of 0 "nat i" j] by simp

lemma updateCellular_cell:
  assumes wf: "wellFormedGrid (cellularGrid s)"
  shows "\<exists>s'. updateCellular s = Inr s' \<and> s' = s\<lparr>cellularGrid := cellularGrid s'\<rparr> \<and>
           wellFormedGrid (cellularGrid s') \<and>
           (\<forall>x y. liveAt (cellularGrid s') x y =
              (0 \<le> x \<and> x < 40 \<and> 0 \<le> y \<and> y < 30 \<and>
               (liveNeighbours (cellularGrid s) x y = 3 \<or>
                liveAt (cellularGrid s) x y \<and> liveNeighbours (cellularGrid s) x y = 2)))"
proof -
  define g where "g = cellularGrid s"
  define g' where "g' =
     map (\<lambda>y. map (\<lambda>x.
                  (let neighbors = countNeighbors g x y
                   in if cellAt g y x then neighbors = 2 \<or> neighbors = 3
                      else neighbors = 3))
                [0..39])
             [0..29]"
  from wf have len: "length g = 30" by (simp add: wellFormedGrid_def g_def)
  then have u: "updateCellular s = Inr (s\<lparr>cellularGrid := g'\<rparr>)"
    by (simp add: updateCellular_def g_def g'_def Let_def)
  have wf': "wellFormedGrid g'"
    by (simp add: wellFormedGrid_def g'_def list_all_iff)
  have cell: "liveAt g' x y =
              (0 \<le> x \<and> x < 40 \<and> 0 \<le> y \<and> y < 30 \<and>
               (liveNeighbours g x y = 3 \<or> liveAt g x y \<and> liveNeighbours g x y = 2))" for x y
  proof (cases "0 \<le> x \<and> x < 40 \<and> 0 \<le> y \<and> y < 30")
    case False
    then show ?thesis by (auto simp: liveAt_def)
  next
    case True
    then have ny: "nat y < 30" and nx: "nat x < 40" by linarith+
    from True have iy: "[0..29] ! nat y = y" and ix: "[0..39] ! nat x = x"
      by (simp_all add: upto_nth)
    have "g' ! nat y ! nat x =
        (let neighbors = countNeighbors g x y
         in if cellAt g y x then neighbors = 2 \<or> neighbors = 3 else neighbors = 3)"
      unfolding g'_def using ny nx iy ix by simp
    moreover have "cellAt g y x = liveAt g x y"
      using cellAt_liveAt [of g x y] wf True by (simp add: g_def)
    moreover have "countNeighbors g x y = liveNeighbours g x y"
      using countNeighbors_liveNeighbours [of g x y] wf by (simp add: g_def)
    ultimately show ?thesis using True by (auto simp: liveAt_def Let_def)
  qed
  from u wf' cell show ?thesis unfolding g_def by auto
qed

lemma liveAt_dead_grid: "\<not> liveAt (replicate 30 (replicate 40 False)) x y"
proof
  assume a: "liveAt (replicate 30 (replicate 40 False)) x y"
  then have "nat y < 30" and "nat x < 40" unfolding liveAt_def by linarith+
  with a show False by (simp add: liveAt_def)
qed

lemma dead_grid_eq:
  assumes wf: "wellFormedGrid g" and dead: "\<And>x y. \<not> liveAt g x y"
  shows "g = replicate 30 (replicate 40 False)"
proof (rule nth_equalityI)
  from wf show "length g = length (replicate 30 (replicate 40 False))"
    by (simp add: wellFormedGrid_def)
next
  fix i assume "i < length g"
  with wf have i: "i < 30" by (simp add: wellFormedGrid_def)
  with wf have li: "length (g ! i) = 40" by (simp add: wellFormedGrid_def list_all_length)
  have "g ! i = replicate 40 False"
  proof (rule nth_equalityI)
    from li show "length (g ! i) = length (replicate 40 False)" by simp
  next
    fix j assume "j < length (g ! i)"
    with li have j: "j < 40" by simp
    from dead [of "int j" "int i"] i j have "\<not> g ! i ! j" by (simp add: liveAt_def)
    with j show "g ! i ! j = replicate 40 False ! j" by simp
  qed
  with i show "g ! i = replicate 30 (replicate 40 False) ! i" by simp
qed

lemma updateCellular_dead_grid:
  "updateCellular (s\<lparr>cellularGrid := replicate 30 (replicate 40 False)\<rparr>) =
     Inr (s\<lparr>cellularGrid := replicate 30 (replicate 40 False)\<rparr>)"
proof -
  define d where "d = s\<lparr>cellularGrid := replicate 30 (replicate 40 False)\<rparr>"
  have g: "cellularGrid d = replicate 30 (replicate 40 False)" by (simp add: d_def)
  have wf: "wellFormedGrid (cellularGrid d)"
    by (simp add: g wellFormedGrid_def list_all_iff)
  from updateCellular_cell [OF wf] obtain s' where
    u: "updateCellular d = Inr s'" and e: "s' = d\<lparr>cellularGrid := cellularGrid s'\<rparr>" and
    wf': "wellFormedGrid (cellularGrid s')" and
    c: "\<And>x y. liveAt (cellularGrid s') x y =
              (0 \<le> x \<and> x < 40 \<and> 0 \<le> y \<and> y < 30 \<and>
               (liveNeighbours (cellularGrid d) x y = 3 \<or>
                liveAt (cellularGrid d) x y \<and> liveNeighbours (cellularGrid d) x y = 2))"
    by blast
  have "liveNeighbours (cellularGrid d) x y = 0" for x y
    unfolding g liveNeighbours_def by (simp add: liveAt_dead_grid)
  with c have "\<not> liveAt (cellularGrid s') x y" for x y by simp
  with wf' have "cellularGrid s' = replicate 30 (replicate 40 False)" by (rule dead_grid_eq)
  with e have "s' = d" by (simp add: d_def)
  with u show ?thesis unfolding d_def by simp
qed

lemma liveNeighbours_corner: "liveNeighbours grid 0 0 \<le> 3"
proof -
  have "liveNeighbours grid 0 0 =
        length (filter (\<lambda>(dx, dy). liveAt grid dx dy) [(1, 0), (0, 1), (1::int, 1::int)])"
    by (simp add: liveNeighbours_def liveAt_def)
  also have "\<dots> \<le> length [(1, 0), (0, 1), (1::int, 1::int)]" by (rule length_filter_le)
  finally show ?thesis by simp
qed

text \<open>
  C3. On a 40 by 30 grid \<^verbatim>\<open>updateCellular\<close> does not throw and replaces the grid by a
  new 40 by 30 grid computed from the old one alone: a cell with exactly three live
  neighbours is live, a live cell with exactly one live neighbour is dead, a live cell
  with two or three live neighbours stays live, and every other cell is dead. Neighbours
  outside the grid count as dead (a corner cell has at most three live neighbours), and
  the all-dead grid is mapped to itself. Nothing but the grid changes.
\<close>

theorem game_of_life_step:
  "wellFormedGrid (cellularGrid s) \<Longrightarrow>
   (\<exists>s'. updateCellular s = Inr s' \<and> s' = s\<lparr>cellularGrid := cellularGrid s'\<rparr> \<and>
      wellFormedGrid (cellularGrid s') \<and>
      (\<forall>x y. 0 \<le> x \<and> x < 40 \<and> 0 \<le> y \<and> y < 30 \<longrightarrow>
         (liveNeighbours (cellularGrid s) x y = 3 \<longrightarrow> liveAt (cellularGrid s') x y) \<and>
         (liveAt (cellularGrid s) x y \<and> liveNeighbours (cellularGrid s) x y = 1 \<longrightarrow>
            \<not> liveAt (cellularGrid s') x y) \<and>
         (liveAt (cellularGrid s) x y \<and>
            (liveNeighbours (cellularGrid s) x y = 2 \<or> liveNeighbours (cellularGrid s) x y = 3) \<longrightarrow>
            liveAt (cellularGrid s') x y) \<and>
         (liveNeighbours (cellularGrid s) x y \<noteq> 3 \<and>
            \<not> (liveAt (cellularGrid s) x y \<and> liveNeighbours (cellularGrid s) x y = 2) \<longrightarrow>
            \<not> liveAt (cellularGrid s') x y))) \<and>
   (\<forall>x y. (x < 0 \<or> 40 \<le> x \<or> y < 0 \<or> 30 \<le> y) \<longrightarrow> \<not> liveAt (cellularGrid s) x y) \<and>
   liveNeighbours (cellularGrid s) 0 0 \<le> 3 \<and>
   updateCellular (s\<lparr>cellularGrid := replicate 30 (replicate 40 False)\<rparr>) =
     Inr (s\<lparr>cellularGrid := replicate 30 (replicate 40 False)\<rparr>)"
proof (intro conjI)
  assume wf: "wellFormedGrid (cellularGrid s)"
  from updateCellular_cell [OF wf] obtain s' where
    u: "updateCellular s = Inr s'" and e: "s' = s\<lparr>cellularGrid := cellularGrid s'\<rparr>" and
    wf': "wellFormedGrid (cellularGrid s')" and
    c: "\<And>x y. liveAt (cellularGrid s') x y =
              (0 \<le> x \<and> x < 40 \<and> 0 \<le> y \<and> y < 30 \<and>
               (liveNeighbours (cellularGrid s) x y = 3 \<or>
                liveAt (cellularGrid s) x y \<and> liveNeighbours (cellularGrid s) x y = 2))"
    by blast
  have "\<forall>x y. 0 \<le> x \<and> x < 40 \<and> 0 \<le> y \<and> y < 30 \<longrightarrow>
         (liveNeighbours (cellularGrid s) x y = 3 \<longrightarrow> liveAt (cellularGrid s') x y) \<and>
         (liveAt (cellularGrid s) x y \<and> liveNeighbours (cellularGrid s) x y = 1 \<longrightarrow>
            \<not> liveAt (cellularGrid s') x y) \<and>
         (liveAt (cellularGrid s) x y \<and>
            (liveNeighbours (cellularGrid s) x y = 2 \<or> liveNeighbours (cellularGrid s) x y = 3) \<longrightarrow>
            liveAt (cellularGrid s') x y) \<and>
         (liveNeighbours (cellularGrid s) x y \<noteq> 3 \<and>
            \<not> (liveAt (cellularGrid s) x y \<and> liveNeighbours (cellularGrid s) x y = 2) \<longrightarrow>
            \<not> liveAt (cellularGrid s') x y)"
    unfolding c by auto
  with u e wf' show "\<exists>s'. updateCellular s = Inr s' \<and> s' = s\<lparr>cellularGrid := cellularGrid s'\<rparr> \<and>
      wellFormedGrid (cellularGrid s') \<and>
      (\<forall>x y. 0 \<le> x \<and> x < 40 \<and> 0 \<le> y \<and> y < 30 \<longrightarrow>
         (liveNeighbours (cellularGrid s) x y = 3 \<longrightarrow> liveAt (cellularGrid s') x y) \<and>
         (liveAt (cellularGrid s) x y \<and> liveNeighbours (cellularGrid s) x y = 1 \<longrightarrow>
            \<not> liveAt (cellularGrid s') x y) \<and>
         (liveAt (cellularGrid s) x y \<and>
            (liveNeighbours (cellularGrid s) x y = 2 \<or> liveNeighbours (cellularGrid s) x y = 3) \<longrightarrow>
            liveAt (cellularGrid s') x y) \<and>
         (liveNeighbours (cellularGrid s) x y \<noteq> 3 \<and>
            \<not> (liveAt (cellularGrid s) x y \<and> liveNeighbours (cellularGrid s) x y = 2) \<longrightarrow>
            \<not> liveAt (cellularGrid s') x y))"
    by blast
next
  show "\<forall>x y. (x < 0 \<or> 40 \<le> x \<or> y < 0 \<or> 30 \<le> y) \<longrightarrow> \<not> liveAt (cellularGrid s) x y"
    by (auto simp: liveAt_def)
next
  show "liveNeighbours (cellularGrid s) 0 0 \<le> 3" by (rule liveNeighbours_corner)
next
  show "updateCellular (s\<lparr>cellularGrid := replicate 30 (replicate 40 False)\<rparr>) =
     Inr (s\<lparr>cellularGrid := replicate 30 (replicate 40 False)\<rparr>)"
    by (rule updateCellular_dead_grid)
qed

theorem game_of_life_step_witness:
  "wellFormedGrid (cellularGrid blinkerState) \<and>
   liveNeighbours (cellularGrid blinkerState) 1 1 = 3 \<and>
   liveNeighbours (cellularGrid blinkerState) 0 0 = 1 \<and>
   liveNeighbours (cellularGrid blinkerState) 1 0 = 2 \<and>
   liveNeighbours (cellularGrid blinkerState) 5 5 = 0 \<and>
   liveAt (cellularGrid blinkerState) 0 0 \<and>
   liveAt (cellularGrid blinkerState) 1 0 \<and>
   \<not> liveAt (cellularGrid blinkerState) 1 1 \<and>
   (\<exists>s'. updateCellular blinkerState = Inr s' \<and>
      liveAt (cellularGrid s') 1 1 \<and>
      \<not> liveAt (cellularGrid s') 0 0 \<and>
      liveAt (cellularGrid s') 1 0 \<and>
      \<not> liveAt (cellularGrid s') 5 5)"
proof -
  have g: "cellularGrid blinkerState =
       (replicate 30 (replicate 40 False))
         [0 := (replicate 40 False)[0 := True, 1 := True, 2 := True]]"
    by (simp add: blinkerState_def)
  have wf: "wellFormedGrid (cellularGrid blinkerState)"
    unfolding g by code_simp
  have n: "liveNeighbours (cellularGrid blinkerState) 1 1 = 3"
    "liveNeighbours (cellularGrid blinkerState) 0 0 = 1"
    "liveNeighbours (cellularGrid blinkerState) 1 0 = 2"
    "liveNeighbours (cellularGrid blinkerState) 5 5 = 0"
    unfolding g by code_simp+
  have l: "liveAt (cellularGrid blinkerState) 0 0"
    "liveAt (cellularGrid blinkerState) 1 0"
    "\<not> liveAt (cellularGrid blinkerState) 1 1"
    "\<not> liveAt (cellularGrid blinkerState) 5 5"
    unfolding g by code_simp+
  from game_of_life_step [OF wf] obtain s' where
    u: "updateCellular blinkerState = Inr s'" and
    c: "\<forall>x y. 0 \<le> x \<and> x < 40 \<and> 0 \<le> y \<and> y < 30 \<longrightarrow>
         (liveNeighbours (cellularGrid blinkerState) x y = 3 \<longrightarrow> liveAt (cellularGrid s') x y) \<and>
         (liveAt (cellularGrid blinkerState) x y \<and>
            liveNeighbours (cellularGrid blinkerState) x y = 1 \<longrightarrow>
            \<not> liveAt (cellularGrid s') x y) \<and>
         (liveAt (cellularGrid blinkerState) x y \<and>
            (liveNeighbours (cellularGrid blinkerState) x y = 2 \<or>
             liveNeighbours (cellularGrid blinkerState) x y = 3) \<longrightarrow>
            liveAt (cellularGrid s') x y) \<and>
         (liveNeighbours (cellularGrid blinkerState) x y \<noteq> 3 \<and>
            \<not> (liveAt (cellularGrid blinkerState) x y \<and>
               liveNeighbours (cellularGrid blinkerState) x y = 2) \<longrightarrow>
            \<not> liveAt (cellularGrid s') x y)"
    by blast
  from c [rule_format, of 1 1] n(1) have a: "liveAt (cellularGrid s') 1 1" by simp
  from c [rule_format, of 0 0] n(2) l(1) have b: "\<not> liveAt (cellularGrid s') 0 0" by simp
  from c [rule_format, of 1 0] n(3) l(2) have d: "liveAt (cellularGrid s') 1 0" by simp
  from c [rule_format, of 5 5] n(4) l(4) have e: "\<not> liveAt (cellularGrid s') 5 5" by simp
  from wf n l u a b d e show ?thesis by blast
qed

subsection \<open>Stateless and stateful kinds\<close>

lemma getPatternValue_stateless_raw:
  assumes "ptype p \<in> set statelessKinds"
  shows "\<exists>r. getPatternValue noise s x y p t = Inr (normalize (Finite r), s)"
  using assms
  by (auto simp: statelessKinds_def getPatternValue_def Let_def)

lemma getPatternValue_stateless:
  assumes "ptype p \<in> set statelessKinds"
  shows "\<exists>v. getPatternValue noise s x y p t = Inr (Finite v, s)"
proof -
  from getPatternValue_stateless_raw [OF assms] obtain r where
    "getPatternValue noise s x y p t = Inr (normalize (Finite r), s)" by blast
  then have "getPatternValue noise s x y p t = Inr (Finite ((r + 1) / 2), s)"
    by (simp add: normalize_def)
  then show ?thesis by blast
qed

lemma dist_xy_on_line: "dist_xy x y a y = \<bar>a - x\<bar>"
  by (simp add: dist_xy_def)

lemma voronoi_first_call:
  "getPatternValue noise edgeSwarmState 0 0 \<lparr>ptype = ''voronoi'', speed = 1/100, scale = 1/20\<rparr> 0 =
     Inr (Finite (29/10), edgeSwarmState\<lparr>voronoiPoints :=
       map advancePoint (voronoiPoints edgeSwarmState)\<rparr>)"
  by (simp add: getPatternValue_def getVoronoiValue_def normalize_def Let_def
      edgeSwarmState_def clickState_def advancePoint_def constrain_def nearestStep_def
      belowDist_def dist_xy_on_line)

lemma voronoi_second_call:
  "getPatternValue noise
     (edgeSwarmState\<lparr>voronoiPoints := map advancePoint (voronoiPoints edgeSwarmState)\<rparr>)
     0 0 \<lparr>ptype = ''voronoi'', speed = 1/100, scale = 1/20\<rparr> 0 =
     Inr (Finite (28/10), edgeSwarmState\<lparr>voronoiPoints :=
       map advancePoint (map advancePoint (voronoiPoints edgeSwarmState))\<rparr>)"
  by (simp add: getPatternValue_def getVoronoiValue_def normalize_def Let_def
      edgeSwarmState_def clickState_def advancePoint_def constrain_def nearestStep_def
      belowDist_def dist_xy_on_line)

lemma voronoi_twice:
  "\<exists>s2. evaluateTwice noise edgeSwarmState 0 0
           \<lparr>ptype = ''voronoi'', speed = 1/100, scale = 1/20\<rparr> 0 =
         Inr (Finite (29/10), Finite (28/10), s2) \<and> s2 \<noteq> edgeSwarmState"
proof -
  let ?s2 = "edgeSwarmState\<lparr>voronoiPoints :=
       map advancePoint (map advancePoint (voronoiPoints edgeSwarmState))\<rparr>"
  have "evaluateTwice noise edgeSwarmState 0 0
           \<lparr>ptype = ''voronoi'', speed = 1/100, scale = 1/20\<rparr> 0 =
         Inr (Finite (29/10), Finite (28/10), ?s2)"
    by (simp add: evaluateTwice_def voronoi_first_call voronoi_second_call)
  moreover have "px (hd (voronoiPoints ?s2)) \<noteq> px (hd (voronoiPoints edgeSwarmState))"
    by (simp add: edgeSwarmState_def advancePoint_def constrain_def Let_def)
  then have "?s2 \<noteq> edgeSwarmState" by metis
  ultimately show ?thesis by blast
qed

lemma normalize_cell: "normalize (Finite (if b then 1 else - 1)) = Finite (if b then 1 else 0)"
  by (simp add: normalize_def)

lemma getPatternValue_cellular_step:
  assumes "updateCellular s = Inr s'" and "jsRem \<lfloor>t * speed p * 100\<rfloor> 30 = 0"
  shows "getPatternValue noise s x y (p\<lparr>ptype := ''cellular''\<rparr>) t =
     Inr (Finite (if cellAt (cellularGrid s')
                       \<lfloor>real_of_int y / real_of_int (gridRows s) * 30\<rfloor>
                       \<lfloor>real_of_int x / real_of_int (gridCols s) * 40\<rfloor> then 1 else 0), s')"
  using assms by (simp add: getPatternValue_def Let_def normalize_cell)

lemma cellular_twice:
  "\<exists>s2. evaluateTwice noise blinkerState 1 0
           \<lparr>ptype = ''cellular'', speed = 1/100, scale = 1/20\<rparr> 0 =
         Inr (Finite 1, Finite 0, s2) \<and> s2 \<noteq> blinkerState"
proof -
  let ?p = "\<lparr>ptype = ''cellular'', speed = 1/100, scale = 1/20\<rparr>"
  have p: "?p = ?p\<lparr>ptype := ''cellular''\<rparr>" by simp
  have t: "jsRem \<lfloor>0 * speed ?p * 100\<rfloor> 30 = 0" by (simp add: jsRem_def)
  have g: "cellularGrid blinkerState =
       (replicate 30 (replicate 40 False))
         [0 := (replicate 40 False)[0 := True, 1 := True, 2 := True]]"
    by (simp add: blinkerState_def)
  have wf0: "wellFormedGrid (cellularGrid blinkerState)"
    unfolding g by code_simp
  have n0: "liveNeighbours (cellularGrid blinkerState) 1 0 = 2"
    "liveNeighbours (cellularGrid blinkerState) 0 0 = 1"
    "liveNeighbours (cellularGrid blinkerState) 2 0 = 1"
    "liveNeighbours (cellularGrid blinkerState) 0 1 = 2"
    "liveNeighbours (cellularGrid blinkerState) 1 1 = 3"
    "liveNeighbours (cellularGrid blinkerState) 2 1 = 2"
    unfolding g by code_simp+
  have l0: "liveAt (cellularGrid blinkerState) 0 0"
    "liveAt (cellularGrid blinkerState) 1 0"
    "liveAt (cellularGrid blinkerState) 2 0"
    "\<not> liveAt (cellularGrid blinkerState) 0 1"
    "\<not> liveAt (cellularGrid blinkerState) 1 1"
    "\<not> liveAt (cellularGrid blinkerState) 2 1"
    unfolding g by code_simp+
  from updateCellular_cell [OF wf0] obtain s1 where
    u1: "updateCellular blinkerState = Inr s1" and
    e1: "s1 = blinkerState\<lparr>cellularGrid := cellularGrid s1\<rparr>" and
    wf1: "wellFormedGrid (cellularGrid s1)" and
    c1: "\<And>x y. liveAt (cellularGrid s1) x y =
              (0 \<le> x \<and> x < 40 \<and> 0 \<le> y \<and> y < 30 \<and>
               (liveNeighbours (cellularGrid blinkerState) x y = 3 \<or>
                liveAt (cellularGrid blinkerState) x y \<and>
                liveNeighbours (cellularGrid blinkerState) x y = 2))"
    by blast
  from updateCellular_cell [OF wf1] obtain s2 where
    u2: "updateCellular s1 = Inr s2" and
    e2: "s2 = s1\<lparr>cellularGrid := cellularGrid s2\<rparr>" and
    wf2: "wellFormedGrid (cellularGrid s2)" and
    c2: "\<And>x y. liveAt (cellularGrid s2) x y =
              (0 \<le> x \<and> x < 40 \<and> 0 \<le> y \<and> y < 30 \<and>
               (liveNeighbours (cellularGrid s1) x y = 3 \<or>
                liveAt (cellularGrid s1) x y \<and> liveNeighbours (cellularGrid s1) x y = 2))"
    by blast
  have l1: "liveAt (cellularGrid s1) 1 0" by (simp add: c1 n0 l0)
  have "liveNeighbours (cellularGrid s1) 1 0 =
     length (filter (\<lambda>(dx, dy). liveAt (cellularGrid s1) (1 + dx) (0 + dy))
       [(-1, -1), (0, -1), (1, -1), (-1, 0), (1, 0), (-1, 1), (0, 1), (1, 1)])"
    by (simp only: liveNeighbours_def)
  then have n1: "liveNeighbours (cellularGrid s1) 1 0 = 1"
    by (simp add: c1 n0 l0)
  have l2: "\<not> liveAt (cellularGrid s2) 1 0" by (simp add: c2 n1)
  have dims: "gridCols blinkerState = 40" "gridRows blinkerState = 30"
    by (simp_all add: blinkerState_def)
  have dims1: "gridCols s1 = 40" "gridRows s1 = 30"
    by (subst e1, simp add: dims)+
  have a1: "cellAt (cellularGrid s1) 0 1 = liveAt (cellularGrid s1) 1 0"
    using cellAt_liveAt [OF wf1, of 1 0] by simp
  have a2: "cellAt (cellularGrid s2) 0 1 = liveAt (cellularGrid s2) 1 0"
    using cellAt_liveAt [OF wf2, of 1 0] by simp
  have v1: "getPatternValue noise blinkerState 1 0 ?p 0 = Inr (Finite 1, s1)"
    using getPatternValue_cellular_step [OF u1 t, of noise 1 0] a1 l1
    by (simp add: dims)
  have v2: "getPatternValue noise s1 1 0 ?p 0 = Inr (Finite 0, s2)"
    using getPatternValue_cellular_step [OF u2 t, of noise 1 0] a2 l2
    by (simp add: dims1)
  have "evaluateTwice noise blinkerState 1 0 ?p 0 = Inr (Finite 1, Finite 0, s2)"
    by (simp add: evaluateTwice_def v1 v2)
  moreover from l2 l0(2) have "s2 \<noteq> blinkerState" by metis
  ultimately show ?thesis by blast
qed

lemma evaluateTwice_stateless:
  assumes "getPatternValue noise s x y p t = Inr (v, s)"
  shows "evaluateTwice noise s x y p t = Inr (v, v, s)"
  by (simp add: evaluateTwice_def assms)

text \<open>
  C9. For each of the kinds waves, ripples, noise, spiral, checkerboard, stripes, plasma,
  mandelbrot, julia, tunnel and mosaic, \<^verbatim>\<open>getPatternValue\<close> returns a finite value and
  leaves the state as it was, so a second call with the same arguments (and the same
  \<^verbatim>\<open>noise\<close> function) returns the same value. The kinds voronoi and cellular are
  stateful: there are states in which two successive calls with the same arguments
  return different values and leave a changed state.
\<close>

theorem stateless_kinds_deterministic:
  "(ptype p \<in> set statelessKinds \<longrightarrow>
      (\<exists>v. getPatternValue noise s x y p t = Inr (Finite v, s) \<and>
           evaluateTwice noise s x y p t = Inr (Finite v, Finite v, s))) \<and>
   (\<exists>s2. evaluateTwice noise edgeSwarmState 0 0
            \<lparr>ptype = ''voronoi'', speed = 1/100, scale = 1/20\<rparr> 0 =
          Inr (Finite (29/10), Finite (28/10), s2) \<and> s2 \<noteq> edgeSwarmState) \<and>
   (\<exists>s2. evaluateTwice noise blinkerState 1 0
            \<lparr>ptype = ''cellular'', speed = 1/100, scale = 1/20\<rparr> 0 =
          Inr (Finite 1, Finite 0, s2) \<and> s2 \<noteq> blinkerState)"
proof (intro conjI impI)
  assume "ptype p \<in> set statelessKinds"
  from getPatternValue_stateless [OF this] obtain v where
    "getPatternValue noise s x y p t = Inr (Finite v, s)" by blast
  with evaluateTwice_stateless [OF this]
  show "\<exists>v. getPatternValue noise s x y p t = Inr (Finite v, s) \<and>
           evaluateTwice noise s x y p t = Inr (Finite v, Finite v, s)" by blast
next
  show "\<exists>s2. evaluateTwice noise edgeSwarmState 0 0
            \<lparr>ptype = ''voronoi'', speed = 1/100, scale = 1/20\<rparr> 0 =
          Inr (Finite (29/10), Finite (28/10), s2) \<and> s2 \<noteq> edgeSwarmState"
    by (rule voronoi_twice)
next
  show "\<exists>s2. evaluateTwice noise blinkerState 1 0
            \<lparr>ptype = ''cellular'', speed = 1/100, scale = 1/20\<rparr> 0 =
          Inr (Finite 1, Finite 0, s2) \<and> s2 \<noteq> blinkerState"
    by (rule cellular_twice)
qed

theorem stateless_kinds_deterministic_witness:
  "ptype \<lparr>ptype = ''waves'', speed = 1/100, scale = 1/20\<rparr> \<in> set statelessKinds \<and>
   getPatternValue (\<lambda>a b c. 0) clickState 0 0
     \<lparr>ptype = ''waves'', speed = 1/100, scale = 1/20\<rparr> 0 = Inr (Finite (1/2), clickState) \<and>
   evaluateTwice (\<lambda>a b c. 0) clickState 0 0
     \<lparr>ptype = ''waves'', speed = 1/100, scale = 1/20\<rparr> 0 =
     Inr (Finite (1/2), Finite (1/2), clickState)"
proof -
  let ?p = "\<lparr>ptype = ''waves'', speed = 1/100, scale = 1/20\<rparr>"
  have k: "ptype ?p \<in> set statelessKinds" by (simp add: statelessKinds_def)
  have v: "getPatternValue (\<lambda>a b c. 0) clickState 0 0 ?p 0 = Inr (Finite (1/2), clickState)"
    by (simp add: getPatternValue_def normalize_def)
  from stateless_kinds_deterministic [where p = ?p and noise = "\<lambda>a b c. 0"
      and s = clickState and x = 0 and y = 0 and t = 0] k
  obtain w where "getPatternValue (\<lambda>a b c. 0) clickState 0 0 ?p 0 = Inr (Finite w, clickState)"
    and "evaluateTwice (\<lambda>a b c. 0) clickState 0 0 ?p 0 = Inr (Finite w, Finite w, clickState)"
    by blast
  with k v show ?thesis by simp
qed

subsection \<open>Range of the pattern value\<close>

lemma mosaic_hash: "jsRem (jsXor (30 * 73856093) (0 * 19349663)) 1000000 = - 284506"
  by (simp add: jsRem_def jsXor_def)

lemma mosaic_bound:
  "(\<sigma>::real) \<le> 1 \<Longrightarrow> (- (284506 / 500000) + \<sigma> * 0.3) / 2 \<le> - (134506 / 1000000)"
  by simp

text \<open>
  C1 states that \<^verbatim>\<open>getPatternValue\<close> returns a value in \<open>[0,1]\<close> for every kind, cell
  and time. The code does not: with the largest scale of the interface, \<open>0.2\<close>, the cell
  \<open>(61, 0)\<close> of the default 80 by 50 grid has the tile coordinate \<open>30\<close>; the product
  \<open>30 * 73856093\<close> exceeds \<open>2^31\<close>, the XOR yields a negative 32-bit integer, the
  remainder is \<open>-284506\<close>, and the value returned for the kind \<^verbatim>\<open>mosaic\<close> is at most
  \<open>-0.134506\<close> at every time and speed: it is below \<open>0\<close>.
\<close>

theorem mosaic_value_below_zero:
  "\<exists>v. getPatternValue noise clickState 61 0 \<lparr>ptype = ''mosaic'', speed = spd, scale = 1/5\<rparr> t =
          Inr (Finite v, clickState) \<and>
        v = (- (284506 / 500000) + sin (t * spd * 100) * 0.3) / 2 \<and>
        v \<le> - (134506 / 1000000) \<and> v < 0"
proof -
  define v where "v = (- (284506 / 500000) + sin (t * spd * 100) * 0.3) / 2"
  have f: "\<lfloor>(61::real) * 200 / (80 * 5)\<rfloor> = 30" by simp
  have e: "getPatternValue noise clickState 61 0 \<lparr>ptype = ''mosaic'', speed = spd, scale = 1/5\<rparr> t =
          Inr (Finite v, clickState)"
    unfolding v_def using mosaic_hash
    by (simp add: getPatternValue_def normalize_def Let_def clickState_def f)
  have b: "v \<le> - (134506 / 1000000)"
    unfolding v_def by (rule mosaic_bound) (rule sin_le_one)
  then have n: "v < 0" by simp
  from e b n v_def show ?thesis by blast
qed

text \<open>
  The other departures from \<open>[0,1]\<close>. At the default scale the hash term of
  \<^verbatim>\<open>mosaic\<close> spans the whole of \<open>[-1,1)\<close> and the added sine term leaves the range: the
  cell \<open>(0, 0)\<close> has the value \<open>- 0.15 * sin 1 < 0\<close> at time \<open>\<pi> + 1\<close>. The ridged variant of the extended script
  computes \<open>1 - 2 * |2 * n - 1| - 1 = - 2 * |2 * n - 1|\<close>, which lies in \<open>[-2, 0]\<close> for a
  noise value \<open>n\<close> in \<open>[0,1]\<close> and is \<open>-2\<close> at \<open>n = 0\<close>. The kind \<^verbatim>\<open>voronoi\<close> returns
  \<open>2.9\<close> in the state \<open>edgeSwarmState\<close>. The kind \<^verbatim>\<open>checkerboard\<close> returns \<open>-1\<close> when the
  sum of its three floors is negative and odd.
\<close>

lemma mosaic_default_scale_below_zero:
  "getPatternValue noise clickState 0 0
     \<lparr>ptype = ''mosaic'', speed = 1/100, scale = 1/20\<rparr> (pi + 1) =
     Inr (Finite (- (3/20) * sin 1), clickState) \<and> - (3/20) * sin (1::real) < 0"
proof -
  have "0 < sin (1::real)" by (rule sin_gt_zero_02) simp_all
  then have neg: "- (3/20) * sin (1::real) < 0" by simp
  have h: "jsRem (jsXor 0 0) 1000000 = 0" by (simp add: jsRem_def jsXor_def)
  have arg: "(pi + 1) * (1/100) * 100 = 1 + pi" by simp
  have s: "sin ((pi + 1) * (1/100) * 100) = - sin (1::real)"
    by (simp only: arg sin_periodic_pi)
  have "getPatternValue noise clickState 0 0
     \<lparr>ptype = ''mosaic'', speed = 1/100, scale = 1/20\<rparr> (pi + 1) =
     Inr (normalize (Finite ((real_of_int 0 / 500000 - 1) + sin ((pi + 1) * (1/100) * 100) * 0.3)),
          clickState)"
    unfolding getPatternValue_def Let_def using h by (simp add: clickState_def)
  also have "\<dots> = Inr (Finite (- (3/20) * sin 1), clickState)"
    unfolding s by (simp add: normalize_def)
  finally show ?thesis using neg by simp
qed

lemma ridged_value:
  "noiseCase noise ''ridged'' nx ny scl time spd =
     - 2 * \<bar>noise (nx * scl * 100) (ny * scl * 100) (time * spd * 10) * 2 - 1\<bar>"
  by (simp add: noiseCase_def Let_def)

lemma ridged_range:
  assumes "0 \<le> noise (nx * scl * 100) (ny * scl * 100) (time * spd * 10)"
    and "noise (nx * scl * 100) (ny * scl * 100) (time * spd * 10) \<le> 1"
  shows "- 2 \<le> noiseCase noise ''ridged'' nx ny scl time spd \<and>
         noiseCase noise ''ridged'' nx ny scl time spd \<le> 0"
  unfolding ridged_value using assms by (simp add: abs_le_iff)

lemma ridged_at_zero:
  "normalize (Finite (noiseCase (\<lambda>a b c. 0) ''ridged'' nx ny scl time spd)) = Finite (- (1/2))"
  by (simp add: ridged_value normalize_def)

lemma voronoi_value_above_one:
  "\<exists>s'. getPatternValue noise edgeSwarmState 0 0
          \<lparr>ptype = ''voronoi'', speed = 1/100, scale = 1/20\<rparr> 0 = Inr (Finite (29/10), s')"
  using voronoi_first_call [of noise] by blast

lemma checkerboard_negative_time:
  "getPatternValue noise clickState 0 0
     \<lparr>ptype = ''checkerboard'', speed = 1/100, scale = 1/20\<rparr> (- 3) = Inr (Finite (- 1), clickState)"
  by (simp add: getPatternValue_def normalize_def Let_def clickState_def jsRem_def)

text \<open>The kinds built from sines alone stay in \<open>[0,1]\<close>.\<close>

lemma normalize_in_unit:
  assumes "\<bar>r\<bar> \<le> 1"
  shows "\<exists>v. normalize (Finite r) = Finite v \<and> 0 \<le> v \<and> v \<le> 1"
proof (intro exI conjI)
  show "normalize (Finite r) = Finite ((r + 1) / 2)" by (simp add: normalize_def)
  from assms show "0 \<le> (r + 1) / 2" and "(r + 1) / 2 \<le> 1" by (simp_all add: abs_le_iff)
qed

lemma abs_two_sines: "\<bar>(sin (a::real) + sin (b::real)) / 2\<bar> \<le> 1"
proof -
  have "\<bar>sin a + sin b\<bar> \<le> \<bar>sin a\<bar> + \<bar>sin b\<bar>" by (rule abs_triangle_ineq)
  also have "\<dots> \<le> 1 + 1" by (intro add_mono abs_sin_le_one)
  finally show ?thesis by simp
qed

lemma abs_four_sines:
  "\<bar>(sin (a::real) + sin (b::real) + sin (c::real) + sin (d::real)) / 4\<bar> \<le> 1"
proof -
  have "\<bar>sin a + sin b + sin c + sin d\<bar> \<le> \<bar>sin a\<bar> + \<bar>sin b\<bar> + \<bar>sin c\<bar> + \<bar>sin d\<bar>"
    by (intro order_trans [OF abs_triangle_ineq] add_mono order_refl)
  also have "\<dots> \<le> 1 + 1 + 1 + 1" by (intro add_mono abs_sin_le_one)
  finally show ?thesis by simp
qed

lemma abs_sine_product: "\<bar>sin (a::real) * sin (b::real)\<bar> \<le> 1"
proof -
  have "\<bar>sin a * sin b\<bar> = \<bar>sin a\<bar> * \<bar>sin b\<bar>" by (rule abs_mult)
  also have "\<dots> \<le> 1 * 1" by (intro mult_mono abs_sin_le_one) simp_all
  finally show ?thesis by simp
qed

lemma sine_kinds_raw:
  assumes "ptype p \<in> {''waves'', ''ripples'', ''spiral'', ''stripes'', ''plasma'', ''tunnel''}"
  shows "\<exists>r. getPatternValue noise s x y p t = Inr (normalize (Finite r), s) \<and> \<bar>r\<bar> \<le> 1"
proof -
  from assms consider "ptype p = ''waves''" | "ptype p = ''ripples''" | "ptype p = ''spiral''"
    | "ptype p = ''stripes''" | "ptype p = ''plasma''" | "ptype p = ''tunnel''" by auto
  then show ?thesis
  proof cases
    case 1
    then have "\<exists>a b. getPatternValue noise s x y p t =
        Inr (normalize (Finite ((sin a + sin b) / 2)), s)"
      by (simp add: getPatternValue_def Let_def) blast
    with abs_two_sines show ?thesis by blast
  next
    case 2
    then have "\<exists>a. getPatternValue noise s x y p t = Inr (normalize (Finite (sin a)), s)"
      by (simp add: getPatternValue_def Let_def) blast
    with abs_sin_le_one show ?thesis by blast
  next
    case 3
    then have "\<exists>a. getPatternValue noise s x y p t = Inr (normalize (Finite (sin a)), s)"
      by (simp add: getPatternValue_def Let_def) blast
    with abs_sin_le_one show ?thesis by blast
  next
    case 4
    then have "\<exists>a. getPatternValue noise s x y p t = Inr (normalize (Finite (sin a)), s)"
      by (simp add: getPatternValue_def Let_def) blast
    with abs_sin_le_one show ?thesis by blast
  next
    case 5
    then have "\<exists>a b c d. getPatternValue noise s x y p t =
        Inr (normalize (Finite ((sin a + sin b + sin c + sin d) / 4)), s)"
      by (simp add: getPatternValue_def Let_def) blast
    with abs_four_sines show ?thesis by blast
  next
    case 6
    then have "\<exists>a b. getPatternValue noise s x y p t =
        Inr (normalize (Finite (sin a * sin b)), s)"
      by (simp add: getPatternValue_def Let_def) blast
    with abs_sine_product show ?thesis by blast
  qed
qed

lemma sine_kinds_in_unit:
  assumes "ptype p \<in> {''waves'', ''ripples'', ''spiral'', ''stripes'', ''plasma'', ''tunnel''}"
  shows "\<exists>v. getPatternValue noise s x y p t = Inr (Finite v, s) \<and> 0 \<le> v \<and> v \<le> 1"
proof -
  from sine_kinds_raw [OF assms] obtain r where
    g: "getPatternValue noise s x y p t = Inr (normalize (Finite r), s)" and "\<bar>r\<bar> \<le> 1"
    by blast
  from normalize_in_unit [OF this(2)] obtain v where
    "normalize (Finite r) = Finite v" "0 \<le> v" "v \<le> 1" by blast
  with g show ?thesis by simp
qed

end
